theory Spec2Isabelle
  imports Main "HOL-Library.Sublist"
begin

section \<open>Landing page generator: scripts/generate\_pages.py\<close>

text \<open>
  The script reads leads from a CSV file, filters them against a JSON ledger of the
  slugs already generated, renders one HTML page per fresh lead (at most
  \<open>BATCH_SIZE\<close> per run) and rewrites the ledger.

  Conventions of the embedding.
  \<^item> A Python \<open>str\<close> is a list of Unicode code points (\<open>nat list\<close>), so that
    \<open>strip\<close> and emptiness mean what they mean in Python; \<open>u\<close> turns an ASCII
    literal into such a list.
  \<^item> What the interpreter gives the module and is not code of the repository is a
    record \<open>stdlib\<close> that every function using it takes as its first argument: the
    standard library functions \<open>json.load\<close>, \<open>json.dumps\<close>,
    \<open>csv.DictReader\<close> and \<open>str.lower\<close>, and the resolved directory that
    \<open>ROOT\<close> is computed from \<open>__file__\<close> to be.
  \<^item> A path is a \<open>pathlib\<close> path: a root and a list of names, normalised as
    \<open>PurePosixPath\<close> normalises. The file a path names is found by resolving its
    \<open>..\<close> names (a POSIX file system without symbolic links).
  \<^item> The outside world (files, directories, standard output, the clock and the
    failures of the file system) is a record \<open>world\<close> passed through the impure
    functions.
  \<^item> An exception is a value \<open>Inl e\<close> of a sum type.
\<close>

subsection \<open>Strings\<close>

type_synonym str = "nat list"

definition u :: "string \<Rightarrow> str" where
  "u s = map of_char s"

text \<open>The code points \<open>str.isspace\<close> accepts; \<open>str.strip()\<close> removes them at both ends.\<close>

definition isspace :: "nat \<Rightarrow> bool" where
  "isspace c =
     (c \<in> {0x9, 0xA, 0xB, 0xC, 0xD, 0x1C, 0x1D, 0x1E, 0x1F, 0x20, 0x85, 0xA0, 0x1680,
            0x2028, 0x2029, 0x202F, 0x205F, 0x3000}
      \<or> (0x2000 \<le> c \<and> c \<le> 0x200A))"

definition strip :: "str \<Rightarrow> str" where
  "strip s = rev (dropWhile isspace (rev (dropWhile isspace s)))"

text \<open>\<open>sep.join(items)\<close>.\<close>

fun join :: "str \<Rightarrow> str list \<Rightarrow> str" where
  "join sep [] = []"
| "join sep [x] = x"
| "join sep (x # y # ys) = x @ sep @ join sep (y # ys)"

subsection \<open>Paths\<close>

text \<open>
  \<open>s.split(sep)\<close> for a separator of one character; \<open>cur\<close> is the piece being
  read.
\<close>

fun split_from :: "nat \<Rightarrow> str \<Rightarrow> str \<Rightarrow> str list" where
  "split_from sep cur [] = [cur]"
| "split_from sep cur (c # cs) =
     (if c = sep then cur # split_from sep [] cs else split_from sep (cur @ [c]) cs)"

definition str_split :: "nat \<Rightarrow> str \<Rightarrow> str list" where
  "str_split sep s = split_from sep [] s"

text \<open>
  A \<open>PurePosixPath\<close>: its root (empty for a relative path, one slash, or two slashes
  when the text starts with exactly two) and its names. Parsing drops the empty names
  and the names \<open>.\<close>, and keeps the names \<open>..\<close>.
\<close>

record ppath =
  root :: str
  names :: "str list"

definition parse_root :: "str \<Rightarrow> str" where
  "parse_root s =
     (if take 1 s \<noteq> u ''/'' then []
      else if take 2 s = u ''//'' \<and> take 3 s \<noteq> u ''///'' then u ''//''
      else u ''/'')"

definition Path :: "str \<Rightarrow> ppath" where
  "Path s =
     \<lparr>root = parse_root s,
      names = filter (\<lambda>name. name \<noteq> [] \<and> name \<noteq> u ''.'') (str_split (of_char CHR ''/'') s)\<rparr>"

text \<open>\<open>a / b\<close>: an absolute \<open>b\<close> replaces \<open>a\<close>.\<close>

definition joinpath :: "ppath \<Rightarrow> str \<Rightarrow> ppath" where
  "joinpath a b =
     (if root (Path b) \<noteq> [] then Path b
      else \<lparr>root = root a, names = names a @ names (Path b)\<rparr>)"

text \<open>\<open>p.parent\<close> and \<open>str(p)\<close>.\<close>

definition parent :: "ppath \<Rightarrow> ppath" where
  "parent p = \<lparr>root = root p, names = butlast (names p)\<rparr>"

definition path_str :: "ppath \<Rightarrow> str" where
  "path_str p =
     (if root p = [] \<and> names p = [] then u ''.'' else root p @ join (u ''/'') (names p))"

text \<open>
  The file an absolute path names: each \<open>..\<close> leaves the directory reached so far
  (at the root it stays there), and the two-slash root is the root. Every path the
  script opens is absolute, \<open>ROOT\<close> being one.
\<close>

definition locate :: "ppath \<Rightarrow> str list" where
  "locate p =
     foldl (\<lambda>dir name. if name = u ''..'' then butlast dir else dir @ [name]) [] (names p)"

subsection \<open>Errors, JSON values, the standard library\<close>

text \<open>
  \<open>ValueError\<close> is the error \<open>Lead.from_row\<close> raises, with the fields it lists;
  \<open>RelativeToError\<close> is the \<open>ValueError\<close> that \<open>relative_to\<close> raises.
  \<open>OSError p\<close> stands for whatever a failing \<open>mkdir\<close> or \<open>write_text\<close> on
  \<open>p\<close> raises.
\<close>

datatype error =
    ValueError "str list"
  | RelativeToError ppath ppath
  | KeyError str
  | TypeError
  | JSONDecodeError
  | FileNotFoundError ppath
  | OSError ppath

text \<open>\<open>p.relative_to(other)\<close>.\<close>

definition relative_to :: "ppath \<Rightarrow> ppath \<Rightarrow> error + ppath" where
  "relative_to p other =
     (if root p = root other \<and> prefix (names other) (names p)
      then Inr \<lparr>root = [], names = drop (length (names other)) (names p)\<rparr>
      else Inl (RelativeToError p other))"

text \<open>
  What \<open>json.load\<close> returns. An object is the association list of a parsed
  \<open>dict\<close> (its keys are distinct, in insertion order). No function of the script
  looks inside a number, and floats are left out.
\<close>

datatype json =
    JNull
  | JBool bool
  | JNum int
  | JStr str
  | JArr "json list"
  | JObj "(str \<times> json) list"

text \<open>
  A row as \<open>csv.DictReader\<close> yields it. \<open>Lead.from_row\<close> reads it through
  \<open>row.get(field)\<close> first, which returns \<open>None\<close> both for an absent column and
  for the \<open>None\<close> a short row is padded with; both are \<open>None\<close> here.
\<close>

type_synonym row = "str \<rightharpoonup> str"

record stdlib =
  json_load :: "str \<Rightarrow> json option"
  json_dumps :: "json \<Rightarrow> str"
  DictReader :: "str \<Rightarrow> row list"
  lower :: "str \<Rightarrow> str"
  module_root :: "str list"

text \<open>
  \<open>json_load\<close> is \<open>None\<close> where \<open>json.load\<close> raises \<open>JSONDecodeError\<close>;
  \<open>json_dumps\<close> is \<open>json.dumps(_, indent=2, ensure_ascii=False)\<close>;
  \<open>module_root\<close> holds the names of \<open>Path(__file__).resolve().parent.parent\<close>,
  an absolute path.
\<close>

subsection \<open>Dates\<close>

record datetime =
  year :: nat
  month :: nat
  day :: nat
  hour :: nat
  minute :: nat
  second :: nat

function decimal :: "nat \<Rightarrow> str" where
  "decimal n = (if n < 10 then [48 + n] else decimal (n div 10) @ [48 + n mod 10])"
  by pat_completeness auto
termination
  by (relation "measure id") auto

declare decimal.simps [simp del]

definition two_digits :: "nat \<Rightarrow> str" where
  "two_digits n = [48 + n div 10 mod 10, 48 + n mod 10]"

definition directive :: "nat \<Rightarrow> datetime \<Rightarrow> str" where
  "directive d dt =
     (if d = of_char CHR ''Y'' then decimal (year dt)
      else if d = of_char CHR ''m'' then two_digits (month dt)
      else if d = of_char CHR ''d'' then two_digits (day dt)
      else if d = of_char CHR ''H'' then two_digits (hour dt)
      else if d = of_char CHR ''M'' then two_digits (minute dt)
      else if d = of_char CHR ''S'' then two_digits (second dt)
      else [of_char CHR ''%'', d])"

text \<open>
  \<open>dt.strftime(fmt)\<close>, for the directives the script uses. \<open>%Y\<close> is the year in
  decimal, as the C library writes it (four digits from the year 1000 on); the other
  directives are two digits.
\<close>

fun strftime :: "str \<Rightarrow> datetime \<Rightarrow> str" where
  "strftime [] dt = []"
| "strftime [c] dt = [c]"
| "strftime (c # d # fmt) dt =
     (if c = of_char CHR ''%'' then directive d dt @ strftime fmt dt
      else c # strftime (d # fmt) dt)"

subsection \<open>Constants of the module\<close>

definition BATCH_SIZE :: nat where
  "BATCH_SIZE = 40"

definition ROOT :: "stdlib \<Rightarrow> ppath" where
  "ROOT L = \<lparr>root = u ''/'', names = module_root L\<rparr>"

definition CSV_PATH :: "stdlib \<Rightarrow> ppath" where
  "CSV_PATH L = joinpath (joinpath (ROOT L) (u ''data'')) (u ''leads.csv'')"

definition GENERATED_PATH :: "stdlib \<Rightarrow> ppath" where
  "GENERATED_PATH L = joinpath (joinpath (ROOT L) (u ''data'')) (u ''generated.json'')"

definition OUTPUT_DIR :: "stdlib \<Rightarrow> ppath" where
  "OUTPUT_DIR L = joinpath (ROOT L) (u ''pages'')"

definition TIMESTAMP_FORMAT :: str where
  "TIMESTAMP_FORMAT = u ''%Y-%m-%dT%H:%M:%SZ''"

subsection \<open>The world\<close>

text \<open>
  \<open>files\<close> maps each file, named as \<open>locate\<close> names it, to its content.
  \<open>fault w t\<close> says whether the file system operation issued at tick \<open>t\<close> fails,
  and what a failed \<open>write_text\<close> leaves of its file: nothing new (the failure came
  on opening the file) or some partial content. \<open>clock w t\<close> is what
  \<open>datetime.utcnow()\<close> returns at tick \<open>t\<close>. Every clock reading and every file
  system operation advances the tick. \<open>writes\<close> logs the paths of the
  \<open>write_text\<close> calls that completed, in order. Standard output takes every line.
\<close>

datatype damage = Untouched | Partial str

record world =
  files :: "str list \<rightharpoonup> str"
  dirs :: "str list set"
  stdout :: "str list"
  writes :: "ppath list"
  tick :: nat
  clock :: "nat \<Rightarrow> datetime"
  fault :: "nat \<Rightarrow> damage option"

definition print :: "str \<Rightarrow> world \<Rightarrow> world" where
  "print line w = w\<lparr>stdout := stdout w @ [line]\<rparr>"

definition utcnow :: "world \<Rightarrow> datetime \<times> world" where
  "utcnow w = (clock w (tick w), w\<lparr>tick := Suc (tick w)\<rparr>)"

text \<open>\<open>p.mkdir(parents=True, exist_ok=True)\<close>.\<close>

definition mkdir :: "ppath \<Rightarrow> world \<Rightarrow> (error + unit) \<times> world" where
  "mkdir p w =
     (case fault w (tick w) of
        None \<Rightarrow> (Inr (), w\<lparr>dirs := insert (locate p) (dirs w), tick := Suc (tick w)\<rparr>)
      | Some d \<Rightarrow> (Inl (OSError p), w\<lparr>tick := Suc (tick w)\<rparr>))"

text \<open>\<open>p.write_text(s, encoding="utf-8")\<close>: the whole file is replaced.\<close>

definition write_text :: "ppath \<Rightarrow> str \<Rightarrow> world \<Rightarrow> (error + unit) \<times> world" where
  "write_text p s w =
     (case fault w (tick w) of
        None \<Rightarrow>
          (Inr (), w\<lparr>files := (files w)(locate p \<mapsto> s), writes := writes w @ [p],
                       tick := Suc (tick w)\<rparr>)
      | Some Untouched \<Rightarrow> (Inl (OSError p), w\<lparr>tick := Suc (tick w)\<rparr>)
      | Some (Partial t) \<Rightarrow>
          (Inl (OSError p), w\<lparr>files := (files w)(locate p \<mapsto> t), tick := Suc (tick w)\<rparr>))"

subsection \<open>Lead\<close>

record Lead =
  slug :: str
  business_name :: str
  city :: str
  service :: str
  pain_point :: str
  offer :: str

definition required_fields :: "str list" where
  "required_fields =
     [u ''slug'', u ''business_name'', u ''city'', u ''service'', u ''pain_point'', u ''offer'']"

text \<open>\<open>not row.get(field)\<close>: the value is \<open>None\<close> or the empty string.\<close>

definition falsy :: "str option \<Rightarrow> bool" where
  "falsy v = (v = None \<or> v = Some [])"

text \<open>\<open>row[field]\<close>.\<close>

definition getitem :: "row \<Rightarrow> str \<Rightarrow> error + str" where
  "getitem r field = (case r field of None \<Rightarrow> Inl (KeyError field) | Some v \<Rightarrow> Inr v)"

definition missing :: "row \<Rightarrow> str list" where
  "missing r = filter (\<lambda>field. falsy (r field)) required_fields"

definition from_row :: "row \<Rightarrow> error + Lead" where
  "from_row r =
     (if missing r \<noteq> [] then Inl (ValueError (missing r))
      else
        case getitem r (u ''slug'') of Inl e \<Rightarrow> Inl e | Inr v1 \<Rightarrow>
        case getitem r (u ''business_name'') of Inl e \<Rightarrow> Inl e | Inr v2 \<Rightarrow>
        case getitem r (u ''city'') of Inl e \<Rightarrow> Inl e | Inr v3 \<Rightarrow>
        case getitem r (u ''service'') of Inl e \<Rightarrow> Inl e | Inr v4 \<Rightarrow>
        case getitem r (u ''pain_point'') of Inl e \<Rightarrow> Inl e | Inr v5 \<Rightarrow>
        case getitem r (u ''offer'') of Inl e \<Rightarrow> Inl e | Inr v6 \<Rightarrow>
          Inr \<lparr>Lead.slug = strip v1, business_name = strip v2, city = strip v3,
               service = strip v4, pain_point = strip v5, offer = strip v6\<rparr>)"

text \<open>The comprehension \<open>[Lead.from_row(row) for row in reader]\<close>: the first row that
  raises ends it.\<close>

fun from_rows :: "row list \<Rightarrow> error + Lead list" where
  "from_rows [] = Inr []"
| "from_rows (r # rs) =
     (case from_row r of
        Inl e \<Rightarrow> Inl e
      | Inr lead \<Rightarrow> (case from_rows rs of Inl e \<Rightarrow> Inl e | Inr leads \<Rightarrow> Inr (lead # leads)))"

definition load_leads :: "stdlib \<Rightarrow> ppath \<Rightarrow> world \<Rightarrow> error + Lead list" where
  "load_leads L p w =
     (case files w (locate p) of
        None \<Rightarrow> Inl (FileNotFoundError p)
      | Some text \<Rightarrow> from_rows (DictReader L text))"

subsection \<open>GeneratedEntry and the ledger\<close>

text \<open>
  The fields of a \<open>GeneratedEntry\<close> are declared \<open>str\<close>, but \<open>load_generated\<close>
  stores whatever JSON value the file holds under each key, unchecked: the fields are
  JSON values here.
\<close>

record GeneratedEntry =
  slug :: json
  created_at :: json
  source :: json

definition to_dict :: "GeneratedEntry \<Rightarrow> json" where
  "to_dict entry =
     JObj [(u ''slug'', GeneratedEntry.slug entry),
           (u ''created_at'', created_at entry),
           (u ''source'', source entry)]"

text \<open>\<open>key in d\<close> and \<open>d.get(key, default)\<close> on a parsed object.\<close>

definition dict_get :: "(str \<times> json) list \<Rightarrow> str \<Rightarrow> json \<Rightarrow> json" where
  "dict_get d key dflt = (case map_of d key of None \<Rightarrow> dflt | Some v \<Rightarrow> v)"

text \<open>\<open>data.get("generated", []) if isinstance(data, dict) else data\<close>.\<close>

definition entries_of :: "json \<Rightarrow> json" where
  "entries_of data = (case data of JObj d \<Rightarrow> dict_get d (u ''generated'') (JArr []) | _ \<Rightarrow> data)"

text \<open>
  What \<open>for item in entries\<close> iterates over: the elements of a list, the keys of a
  dict, the characters of a string; any other JSON value is not iterable.
\<close>

definition iterate :: "json \<Rightarrow> error + json list" where
  "iterate entries =
     (case entries of
        JArr items \<Rightarrow> Inr items
      | JObj d \<Rightarrow> Inr (map (\<lambda>kv. JStr (fst kv)) d)
      | JStr s \<Rightarrow> Inr (map (\<lambda>c. JStr [c]) s)
      | _ \<Rightarrow> Inl TypeError)"

text \<open>The body of the \<open>for\<close> loop of \<open>load_generated\<close>, with \<open>result\<close> as accumulator.\<close>

fun load_loop :: "json list \<Rightarrow> GeneratedEntry list \<Rightarrow> GeneratedEntry list" where
  "load_loop [] result = result"
| "load_loop (item # items) result =
     (case item of
        JObj d \<Rightarrow>
          (case map_of d (u ''slug'') of
             None \<Rightarrow> load_loop items result
           | Some s \<Rightarrow>
               load_loop items
                 (result @ [\<lparr>GeneratedEntry.slug = s,
                             created_at = dict_get d (u ''created_at'') (JStr []),
                             source = dict_get d (u ''source'') (JStr (u ''data/leads.csv''))\<rparr>]))
      | _ \<Rightarrow> load_loop items result)"

definition load_generated :: "stdlib \<Rightarrow> ppath \<Rightarrow> world \<Rightarrow> error + GeneratedEntry list" where
  "load_generated L p w =
     (case files w (locate p) of
        None \<Rightarrow> Inr []
      | Some text \<Rightarrow>
          (case json_load L text of
             None \<Rightarrow> Inl JSONDecodeError
           | Some data \<Rightarrow>
               (case iterate (entries_of data) of
                  Inl e \<Rightarrow> Inl e
                | Inr items \<Rightarrow> Inr (load_loop items []))))"

definition payload :: "GeneratedEntry list \<Rightarrow> json" where
  "payload entries = JObj [(u ''generated'', JArr (map to_dict entries))]"

definition save_generated ::
  "stdlib \<Rightarrow> ppath \<Rightarrow> GeneratedEntry list \<Rightarrow> world \<Rightarrow> (error + unit) \<times> world" where
  "save_generated L p entries w =
     (case mkdir (parent p) w of
        (Inl e, w1) \<Rightarrow> (Inl e, w1)
      | (Inr _, w1) \<Rightarrow> write_text p (json_dumps L (payload entries) @ u ''\<newline>'') w1)"

subsection \<open>Rendering\<close>

text \<open>The characters of the templates outside ASCII.\<close>

definition auml :: str where "auml = [0xE4]"
definition ouml :: str where "ouml = [0xF6]"
definition uuml :: str where "uuml = [0xFC]"
definition szlig :: str where "szlig = [0xDF]"
definition ndash :: str where "ndash = [0x2013]"

definition faqs :: "stdlib \<Rightarrow> Lead \<Rightarrow> (str \<times> str) list" where
  \<open>faqs L lead =
     [(u ''Wie kann '' @ business_name lead @ u '' mehr '' @ lower L (service lead) @
       u ''-Anfragen in '' @ city lead @ u '' gewinnen?'',
       u ''Wir stellen die St'' @ auml @ u ''rken von '' @ business_name lead @
       u '' heraus, zeigen Referenzen und bauen klare Conversion-Elemente ein, damit Interessenten sofort Kontakt aufnehmen.''),
      (u ''Was bedeutet das Angebot "'' @ offer lead @ u ''" konkret?'',
       u ''Wir entwickeln eine individuelle Landingpage, die das '' @ offer lead @
       u '' f'' @ uuml @ u ''r '' @ business_name lead @ u '' erkl'' @ auml @ u ''rt und Besuchern einen einfachen n'' @
       auml @ u ''chsten Schritt bietet.''),
      (u ''Wie schnell geht die Umsetzung?'',
       u ''In der Regel liefern wir innerhalb weniger Tage eine ver'' @
       ouml @ u ''ffentlichbare Seite und optimieren anschlie'' @ szlig @ u ''end anhand echter Daten.'')]\<close>

definition faq_item :: "str \<times> str \<Rightarrow> str" where
  \<open>faq_item qa =
     (case qa of (question, answer) \<Rightarrow>
        u ''<div class="faq-item">\<newline>'' @
        u ''  <h3>'' @ question @ u ''</h3>\<newline>'' @
        u ''  <p>'' @ answer @ u ''</p>\<newline>'' @
        u ''</div>'')\<close>

definition render_faq :: "stdlib \<Rightarrow> Lead \<Rightarrow> str" where
  \<open>render_faq L lead = join (u ''\<newline>'') (map faq_item (faqs L lead))\<close>

definition tagline :: "Lead \<Rightarrow> str" where
  \<open>tagline lead =
     service lead @ u '' in '' @ city lead @ u '': '' @ offer lead\<close>

definition hero :: "Lead \<Rightarrow> str" where
  \<open>hero lead =
     u ''<section class="hero">\<newline>'' @
     u ''  <h1>'' @ business_name lead @ u '' '' @ ndash @ u '' '' @ service lead @
     u '' in '' @ city lead @ u ''</h1>\<newline>'' @
     u ''  <p class="tagline">'' @ tagline lead @ u ''</p>\<newline>'' @
     u ''  <a class="cta" href="mailto:hello@example.com?subject='' @
     business_name lead @ u ''%20Landingpage">Jetzt Beratung sichern</a>\<newline>'' @
     u ''</section>''\<close>

definition pain_section :: "Lead \<Rightarrow> str" where
  \<open>pain_section lead =
     u ''<section class="pain">\<newline>'' @
     u ''  <h2>Wir l'' @ ouml @ u ''sen: '' @ pain_point lead @ u ''</h2>\<newline>'' @
     u ''  <p>Viele '' @ service lead @ u ''-Teams in '' @ city lead @ u '' verlieren t'' @
     auml @ u ''glich potenzielle Kunden, weil ihre Website nicht '' @ uuml @
     u ''berzeugt. '' @ business_name lead @ u '' bekommt eine Seite, die Vertrauen aufbaut, Fragen beantwortet und immer auf einen klaren CTA f'' @
     uuml @ u ''hrt.</p>\<newline>'' @
     u ''  <ul>\<newline>'' @
     u ''    <li>Storytelling rund um '' @ business_name lead @ u ''</li>\<newline>'' @
     u ''    <li>Lokale Beweise aus '' @ city lead @ u ''</li>\<newline>'' @
     u ''    <li>Schlanke Kontaktwege f'' @ uuml @ u ''r mehr Abschl'' @ uuml @
     u ''sse</li>\<newline>'' @
     u ''  </ul>\<newline>'' @
     u ''</section>''\<close>

definition faq_section :: "stdlib \<Rightarrow> Lead \<Rightarrow> str" where
  \<open>faq_section L lead =
     u ''<section class="faq">\<newline>'' @
     u ''  <h2>H'' @ auml @ u ''ufige Fragen</h2>\<newline>'' @
     u ''  '' @ render_faq L lead @ u ''\<newline>'' @
     u ''</section>''\<close>

definition footer :: "str \<Rightarrow> Lead \<Rightarrow> str" where
  \<open>footer today lead =
     u ''<footer>\<newline>'' @
     u ''  <p>Seite f'' @ uuml @ u ''r '' @ business_name lead @ u '' erstellt am '' @
     today @ u ''.</p>\<newline>'' @
     u ''  <a class="cta secondary" href="mailto:hello@example.com?subject='' @
     business_name lead @ u ''%20Projekt">Kostenloses Gespr'' @ auml @ u ''ch anfragen</a>\<newline>'' @
     u ''</footer>''\<close>

definition style :: "str" where
  \<open>style =
     u ''\<newline>'' @
     u ''    <style>\<newline>'' @
     u ''      :root { font-family: 'Inter', Arial, sans-serif; color: #111827; background: #f9fafb; }\<newline>'' @
     u ''      body { max-width: 900px; margin: 0 auto; padding: 24px; line-height: 1.6; }\<newline>'' @
     u ''      h1, h2, h3 { color: #0f172a; margin-bottom: 8px; }\<newline>'' @
     u ''      .hero { background: linear-gradient(120deg, #e0f2fe, #ecfeff); padding: 32px; border-radius: 16px; margin-bottom: 24px; }\<newline>'' @
     u ''      .tagline { font-size: 1.1rem; margin-bottom: 16px; }\<newline>'' @
     u ''      .cta { display: inline-block; padding: 12px 18px; background: #2563eb; color: #fff; border-radius: 12px; text-decoration: none; font-weight: 600; }\<newline>'' @
     u ''      .cta.secondary { background: #0ea5e9; }\<newline>'' @
     u ''      .pain, .faq { background: #fff; border-radius: 16px; padding: 24px; box-shadow: 0 10px 30px rgba(15, 23, 42, 0.05); margin-bottom: 24px; }\<newline>'' @
     u ''      ul { padding-left: 20px; }\<newline>'' @
     u ''      .faq-item { margin-bottom: 14px; }\<newline>'' @
     u ''      footer { display: flex; justify-content: space-between; align-items: center; background: #f1f5f9; padding: 16px; border-radius: 12px; }\<newline>'' @
     u ''      @media (max-width: 640px) { footer { flex-direction: column; align-items: flex-start; gap: 12px; } }\<newline>'' @
     u ''    </style>\<newline>'' @
     u ''    ''\<close>

definition html :: "stdlib \<Rightarrow> str \<Rightarrow> Lead \<Rightarrow> str" where
  \<open>html L today lead =
     u ''<!DOCTYPE html>\<newline>'' @
     u ''<html lang="de">\<newline>'' @
     u ''<head>\<newline>'' @
     u ''  <meta charset="UTF-8" />\<newline>'' @
     u ''  <meta name="viewport" content="width=device-width, initial-scale=1.0" />\<newline>'' @
     u ''  <title>'' @ business_name lead @ u '' '' @ ndash @ u '' '' @ service lead @
     u '' in '' @ city lead @ u ''</title>\<newline>'' @
     u ''  '' @ style @ u ''\<newline>'' @
     u ''</head>\<newline>'' @
     u ''<body>\<newline>'' @
     u ''  '' @ hero lead @ u ''\<newline>'' @
     u ''  '' @ pain_section lead @ u ''\<newline>'' @
     u ''  '' @ faq_section L lead @ u ''\<newline>'' @
     u ''  '' @ footer today lead @ u ''\<newline>'' @
     u ''</body>\<newline>'' @
     u ''</html>\<newline>''\<close>

text \<open>
  \<open>render_page\<close> reads the clock once, for the date of the footer; \<open>html\<close> above is
  its template, with that date as \<open>today\<close>.
\<close>

definition render_page :: "stdlib \<Rightarrow> Lead \<Rightarrow> world \<Rightarrow> str \<times> world" where
  "render_page L lead w =
     (case utcnow w of (now, w1) \<Rightarrow> (html L (strftime (u ''%d.%m.%Y'') now) lead, w1))"

subsection \<open>main\<close>

text \<open>
  \<open>{entry.slug for entry in generated_entries}\<close>: building the set hashes every slug,
  and a list or a dict is not hashable.
\<close>

definition hashable :: "json \<Rightarrow> bool" where
  "hashable v = (case v of JArr _ \<Rightarrow> False | JObj _ \<Rightarrow> False | _ \<Rightarrow> True)"

definition generated_slugs :: "GeneratedEntry list \<Rightarrow> error + json set" where
  "generated_slugs generated_entries =
     (if list_all hashable (map GeneratedEntry.slug generated_entries)
      then Inr (set (map GeneratedEntry.slug generated_entries))
      else Inl TypeError)"

definition fresh_leads :: "json set \<Rightarrow> Lead list \<Rightarrow> Lead list" where
  "fresh_leads slugs leads = filter (\<lambda>lead. JStr (Lead.slug lead) \<notin> slugs) leads"

definition batch :: "Lead list \<Rightarrow> Lead list" where
  "batch fresh = take BATCH_SIZE fresh"

definition output_file :: "stdlib \<Rightarrow> Lead \<Rightarrow> ppath" where
  "output_file L lead = joinpath (OUTPUT_DIR L) (Lead.slug lead @ u ''.html'')"

definition new_entry :: "str \<Rightarrow> str \<Rightarrow> Lead \<Rightarrow> GeneratedEntry" where
  "new_entry now_str src lead =
     \<lparr>GeneratedEntry.slug = JStr (Lead.slug lead), created_at = JStr now_str,
      source = JStr src\<rparr>"

text \<open>
  The \<open>for lead in batch\<close> loop of \<open>main\<close>; \<open>generated_entries\<close> is the list it
  appends to. After the page is written, the entry is built with
  \<open>str(CSV_PATH.relative_to(ROOT))\<close> as source, and the line printed shows
  \<open>output_file.relative_to(ROOT)\<close>, which raises when the slug has taken the path out
  of \<open>ROOT\<close>.
\<close>

fun batch_loop ::
  "stdlib \<Rightarrow> str \<Rightarrow> Lead list \<Rightarrow> GeneratedEntry list \<Rightarrow> world
    \<Rightarrow> (error + GeneratedEntry list) \<times> world" where
  "batch_loop L now_str [] generated_entries w = (Inr generated_entries, w)"
| "batch_loop L now_str (lead # rest) generated_entries w =
     (case render_page L lead w of
        (page, w1) \<Rightarrow>
          (case write_text (output_file L lead) page w1 of
             (Inl e, w2) \<Rightarrow> (Inl e, w2)
           | (Inr _, w2) \<Rightarrow>
               (case relative_to (CSV_PATH L) (ROOT L) of
                  Inl e \<Rightarrow> (Inl e, w2)
                | Inr src \<Rightarrow>
                    (case relative_to (output_file L lead) (ROOT L) of
                       Inl e \<Rightarrow> (Inl e, w2)
                     | Inr shown \<Rightarrow>
                         batch_loop L now_str rest
                           (generated_entries @ [new_entry now_str (path_str src) lead])
                           (print (u ''Generated '' @ path_str shown) w2)))))"

definition main :: "stdlib \<Rightarrow> world \<Rightarrow> (error + unit) \<times> world" where
  "main L w =
     (case load_leads L (CSV_PATH L) w of
        Inl e \<Rightarrow> (Inl e, w)
      | Inr leads \<Rightarrow>
     (case load_generated L (GENERATED_PATH L) w of
        Inl e \<Rightarrow> (Inl e, w)
      | Inr generated_entries \<Rightarrow>
     (case generated_slugs generated_entries of
        Inl e \<Rightarrow> (Inl e, w)
      | Inr slugs \<Rightarrow>
     (if batch (fresh_leads slugs leads) = [] then
        (Inr (), print (u ''No new leads to generate.'') w)
      else
     (case mkdir (OUTPUT_DIR L) w of
        (Inl e, w1) \<Rightarrow> (Inl e, w1)
      | (Inr _, w1) \<Rightarrow>
     (case utcnow w1 of
        (now, w2) \<Rightarrow>
     (case batch_loop L (strftime TIMESTAMP_FORMAT now) (batch (fresh_leads slugs leads))
             generated_entries w2 of
        (Inl e, w3) \<Rightarrow> (Inl e, w3)
      | (Inr entries, w3) \<Rightarrow>
     (case save_generated L (GENERATED_PATH L) entries w3 of
        (Inl e, w4) \<Rightarrow> (Inl e, w4)
      | (Inr _, w4) \<Rightarrow>
     (case relative_to (GENERATED_PATH L) (ROOT L) of
        Inl e \<Rightarrow> (Inl e, w4)
      | Inr shown \<Rightarrow>
          (Inr (), print (u ''Saved log to '' @ path_str shown) w4))))))))))"

subsection \<open>Example inputs\<close>

text \<open>
  A standard library whose CSV reader yields \<open>rows\<close> and whose JSON parser is the
  table \<open>docs\<close>, for a script installed under \<open>/srv/app\<close>, and a world with the
  files \<open>fs\<close> and the faults \<open>f\<close>, for the examples below.
\<close>

definition example_dumps :: "json \<Rightarrow> str" where
  "example_dumps j = u ''<json>''"

definition example_stdlib :: "row list \<Rightarrow> (str \<rightharpoonup> json) \<Rightarrow> stdlib" where
  "example_stdlib rows docs =
     \<lparr>json_load = docs, json_dumps = example_dumps, DictReader = (\<lambda>text. rows),
      lower = (\<lambda>s. s), module_root = [u ''srv'', u ''app'']\<rparr>"

definition csv_file :: "str list" where
  "csv_file = [u ''srv'', u ''app'', u ''data'', u ''leads.csv'']"

definition ledger_file :: "str list" where
  "ledger_file = [u ''srv'', u ''app'', u ''data'', u ''generated.json'']"

definition page_file :: "str \<Rightarrow> str list" where
  "page_file name = [u ''srv'', u ''app'', u ''pages'', name]"

definition example_clock :: "nat \<Rightarrow> datetime" where
  "example_clock t = \<lparr>year = 2024, month = 5, day = 17, hour = 9, minute = 30, second = t\<rparr>"

definition no_fault :: "nat \<Rightarrow> damage option" where
  "no_fault t = None"

definition example_world :: "(str list \<rightharpoonup> str) \<Rightarrow> (nat \<Rightarrow> damage option) \<Rightarrow> world" where
  "example_world fs f =
     \<lparr>files = fs, dirs = {}, stdout = [], writes = [], tick = 0, clock = example_clock,
      fault = f\<rparr>"

definition example_lead :: "str \<Rightarrow> Lead" where
  "example_lead s =
     \<lparr>Lead.slug = s, business_name = u ''Acme Plumbing'', city = u ''Berlin'',
      service = u ''Klempnerei'', pain_point = u ''Verlorene Anfragen'',
      offer = u ''Kostenlose Erstberatung''\<rparr>"

definition example_row :: "str \<Rightarrow> row" where
  "example_row s =
     [u ''slug'' \<mapsto> s, u ''business_name'' \<mapsto> u ''Acme Plumbing'', u ''city'' \<mapsto> u ''Berlin'',
      u ''service'' \<mapsto> u ''Klempnerei'', u ''pain_point'' \<mapsto> u ''Verlorene Anfragen'',
      u ''offer'' \<mapsto> u ''Kostenlose Erstberatung'']"

definition example_entry :: "json \<Rightarrow> GeneratedEntry" where
  "example_entry s =
     \<lparr>GeneratedEntry.slug = s, created_at = JStr (u ''2024-05-16T08:00:00Z''),
      source = JStr (u ''data/leads.csv'')\<rparr>"

definition fault_at :: "nat \<Rightarrow> damage \<Rightarrow> nat \<Rightarrow> damage option" where
  "fault_at k d t = (if t = k then Some d else None)"

section \<open>Properties\<close>

subsection \<open>Paths\<close>

lemma locate_example:
  "locate (Path (u ''/srv/app/data/leads.csv'')) = csv_file"
  "locate (Path (u ''/srv/app/data/generated.json'')) = ledger_file"
  by (simp_all add: locate_def Path_def str_split_def csv_file_def ledger_file_def u_def)

subsection \<open>Loading leads\<close>

lemma dropWhile_all_iff: "(\<forall>x\<in>set (dropWhile P xs). P x) \<longleftrightarrow> (\<forall>x\<in>set xs. P x)"
  by (induction xs) auto

lemma strip_empty_iff: "strip s = [] \<longleftrightarrow> (\<forall>c\<in>set s. isspace c)"
  by (simp add: strip_def dropWhile_eq_Nil_conv dropWhile_all_iff)

lemma missing_empty_iff:
  "missing r = [] \<longleftrightarrow>
   (\<exists>v1 v2 v3 v4 v5 v6. r (u ''slug'') = Some v1 \<and> v1 \<noteq> [] \<and> r (u ''business_name'') = Some v2 \<and> v2 \<noteq> []
      \<and> r (u ''city'') = Some v3 \<and> v3 \<noteq> [] \<and> r (u ''service'') = Some v4 \<and> v4 \<noteq> []
      \<and> r (u ''pain_point'') = Some v5 \<and> v5 \<noteq> [] \<and> r (u ''offer'') = Some v6 \<and> v6 \<noteq> [])"
  by (auto simp: missing_def filter_empty_conv required_fields_def falsy_def)

lemma missing_empty_fields:
  "missing r = [] \<longleftrightarrow> (\<forall>field\<in>set required_fields. r field \<noteq> None \<and> r field \<noteq> Some [])"
  by (auto simp: missing_def filter_empty_conv falsy_def)

lemma from_row_ok:
  assumes "r (u ''slug'') = Some v1" "v1 \<noteq> []" "r (u ''business_name'') = Some v2" "v2 \<noteq> []"
      "r (u ''city'') = Some v3" "v3 \<noteq> []" "r (u ''service'') = Some v4" "v4 \<noteq> []"
      "r (u ''pain_point'') = Some v5" "v5 \<noteq> []" "r (u ''offer'') = Some v6" "v6 \<noteq> []"
  shows "from_row r = Inr \<lparr>Lead.slug = strip v1, business_name = strip v2, city = strip v3,
               service = strip v4, pain_point = strip v5, offer = strip v6\<rparr>"
proof -
  have "missing r = []"
    using assms by (subst missing_empty_iff) blast
  then show ?thesis
    using assms by (simp add: from_row_def getitem_def)
qed

lemma from_row_missing:
  "missing r \<noteq> [] \<Longrightarrow> from_row r = Inl (ValueError (missing r))"
  by (simp add: from_row_def)

lemma from_row_Inl_iff: "from_row r = Inl e \<longleftrightarrow> missing r \<noteq> [] \<and> e = ValueError (missing r)"
proof (cases "missing r = []")
  case True
  then obtain v1 v2 v3 v4 v5 v6 where "r (u ''slug'') = Some v1" "v1 \<noteq> []" "r (u ''business_name'') = Some v2" "v2 \<noteq> []"
      "r (u ''city'') = Some v3" "v3 \<noteq> []" "r (u ''service'') = Some v4" "v4 \<noteq> []"
      "r (u ''pain_point'') = Some v5" "v5 \<noteq> []" "r (u ''offer'') = Some v6" "v6 \<noteq> []"
    unfolding missing_empty_iff by blast
  from from_row_ok[OF this] True show ?thesis by simp
next
  case False
  then show ?thesis by (auto simp: from_row_missing)
qed

lemma from_row_Inr_iff:
  "from_row r = Inr lead \<longleftrightarrow>
   (\<exists>v1 v2 v3 v4 v5 v6. r (u ''slug'') = Some v1 \<and> v1 \<noteq> [] \<and> r (u ''business_name'') = Some v2 \<and> v2 \<noteq> []
      \<and> r (u ''city'') = Some v3 \<and> v3 \<noteq> [] \<and> r (u ''service'') = Some v4 \<and> v4 \<noteq> []
      \<and> r (u ''pain_point'') = Some v5 \<and> v5 \<noteq> [] \<and> r (u ''offer'') = Some v6 \<and> v6 \<noteq> []
      \<and> lead = \<lparr>Lead.slug = strip v1, business_name = strip v2, city = strip v3,
               service = strip v4, pain_point = strip v5, offer = strip v6\<rparr>)"
  (is "?l \<longleftrightarrow> ?r")
proof
  assume l: ?l
  then have "missing r = []" by (auto simp: from_row_def split: if_splits)
  then obtain v1 v2 v3 v4 v5 v6 where v: "r (u ''slug'') = Some v1" "v1 \<noteq> []" "r (u ''business_name'') = Some v2" "v2 \<noteq> []"
      "r (u ''city'') = Some v3" "v3 \<noteq> []" "r (u ''service'') = Some v4" "v4 \<noteq> []"
      "r (u ''pain_point'') = Some v5" "v5 \<noteq> []" "r (u ''offer'') = Some v6" "v6 \<noteq> []"
    unfolding missing_empty_iff by blast
  from from_row_ok[OF this] l have "lead = \<lparr>Lead.slug = strip v1, business_name = strip v2, city = strip v3,
               service = strip v4, pain_point = strip v5, offer = strip v6\<rparr>" by simp
  with v show ?r by blast
next
  assume ?r
  then show ?l using from_row_ok by blast
qed

text \<open>
  Claim C10. \<open>Lead.from_row\<close> raises exactly when a required field is absent from the
  row or holds the empty string, the test being made before trimming, and the error is
  a \<open>ValueError\<close> listing those fields in the order of \<open>required_fields\<close>.
  Consequently a row is accepted when a required field holds only whitespace, and the
  lead it yields has the empty string in that field.
\<close>

theorem from_row_validation:
  "((\<exists>e. from_row r = Inl e) \<longleftrightarrow> (\<exists>field\<in>set required_fields. r field = None \<or> r field = Some []))
   \<and> (\<forall>e. from_row r = Inl e \<longrightarrow>
         e = ValueError (filter (\<lambda>field. r field = None \<or> r field = Some []) required_fields))
   \<and> (\<forall>lead v. from_row r = Inr lead \<and> (\<forall>c\<in>set v. isspace c) \<longrightarrow>
         (r (u ''slug'') = Some v \<longrightarrow> Lead.slug lead = []) \<and>
         (r (u ''business_name'') = Some v \<longrightarrow> business_name lead = []) \<and>
         (r (u ''city'') = Some v \<longrightarrow> city lead = []) \<and>
         (r (u ''service'') = Some v \<longrightarrow> service lead = []) \<and>
         (r (u ''pain_point'') = Some v \<longrightarrow> pain_point lead = []) \<and>
         (r (u ''offer'') = Some v \<longrightarrow> offer lead = []))"
proof (intro conjI allI impI)
  show "(\<exists>e. from_row r = Inl e) \<longleftrightarrow> (\<exists>field\<in>set required_fields. r field = None \<or> r field = Some [])"
    unfolding from_row_Inl_iff using missing_empty_fields[of r] by auto
next
  fix e assume "from_row r = Inl e"
  then show "e = ValueError (filter (\<lambda>field. r field = None \<or> r field = Some []) required_fields)"
    by (simp add: from_row_Inl_iff missing_def falsy_def)
next
  fix lead v
  assume a: "from_row r = Inr lead \<and> (\<forall>c\<in>set v. isspace c)"
  then have s: "strip v = []" by (simp add: strip_empty_iff)
  from a obtain v1 v2 v3 v4 v5 v6 where
    "r (u ''slug'') = Some v1" "r (u ''business_name'') = Some v2" "r (u ''city'') = Some v3"
    "r (u ''service'') = Some v4" "r (u ''pain_point'') = Some v5" "r (u ''offer'') = Some v6"
    "lead = \<lparr>Lead.slug = strip v1, business_name = strip v2, city = strip v3,
               service = strip v4, pain_point = strip v5, offer = strip v6\<rparr>"
    unfolding from_row_Inr_iff by blast
  with s show "r (u ''slug'') = Some v \<Longrightarrow> Lead.slug lead = []"
    "r (u ''business_name'') = Some v \<Longrightarrow> business_name lead = []"
    "r (u ''city'') = Some v \<Longrightarrow> city lead = []"
    "r (u ''service'') = Some v \<Longrightarrow> service lead = []"
    "r (u ''pain_point'') = Some v \<Longrightarrow> pain_point lead = []"
    "r (u ''offer'') = Some v \<Longrightarrow> offer lead = []"
    by auto
qed

theorem from_row_validation_witness:
  "from_row [u ''slug'' \<mapsto> u ''a'', u ''business_name'' \<mapsto> u ''B'', u ''city'' \<mapsto> [0x20, 0x9],
             u ''service'' \<mapsto> u ''S'', u ''pain_point'' \<mapsto> u ''P'', u ''offer'' \<mapsto> u ''O'']
   = Inr \<lparr>Lead.slug = u ''a'', business_name = u ''B'', city = [], service = u ''S'',
           pain_point = u ''P'', offer = u ''O''\<rparr>
   \<and> from_row [u ''slug'' \<mapsto> u ''a'', u ''city'' \<mapsto> [], u ''service'' \<mapsto> u ''S'']
     = Inl (ValueError [u ''business_name'', u ''city'', u ''pain_point'', u ''offer''])"
proof -
  let ?r = "[u ''slug'' \<mapsto> u ''a'', u ''business_name'' \<mapsto> u ''B'', u ''city'' \<mapsto> [0x20, 0x9],
             u ''service'' \<mapsto> u ''S'', u ''pain_point'' \<mapsto> u ''P'', u ''offer'' \<mapsto> u ''O'']"
  let ?q = "[u ''slug'' \<mapsto> u ''a'', u ''city'' \<mapsto> [], u ''service'' \<mapsto> (u ''S'')]"
  have nl: "\<not> (\<exists>field\<in>set required_fields. ?r field = None \<or> ?r field = Some [])"
    by (simp add: required_fields_def u_def)
  with from_row_validation[of ?r] obtain lead where lead: "from_row ?r = Inr lead"
    by (cases "from_row ?r") auto
  have sp: "\<forall>c\<in>set [0x20, 0x9::nat]. isspace c" by (simp add: isspace_def)
  have c: "?r (u ''city'') = Some [0x20, 0x9]" by (simp add: u_def)
  from from_row_validation[of ?r] lead sp c have "city lead = []" by blast
  moreover from lead have "Lead.slug lead = u ''a''" "business_name lead = u ''B''" "service lead = u ''S''"
    "pain_point lead = u ''P''" "offer lead = u ''O''"
    by (auto simp: from_row_Inr_iff u_def strip_def isspace_def)
  ultimately have 1: "from_row ?r = Inr \<lparr>Lead.slug = u ''a'', business_name = u ''B'', city = [], service = u ''S'',
           pain_point = u ''P'', offer = u ''O''\<rparr>"
    using lead by (cases lead) simp
  have "\<exists>field\<in>set required_fields. ?q field = None \<or> ?q field = Some []"
    by (simp add: required_fields_def u_def)
  with from_row_validation[of ?q] obtain e where e: "from_row ?q = Inl e" by blast
  with from_row_validation[of ?q]
  have "e = ValueError (filter (\<lambda>field. ?q field = None \<or> ?q field = Some []) required_fields)"
    by blast
  also have "\<dots> = ValueError [u ''business_name'', u ''city'', u ''pain_point'', u ''offer'']"
    by (simp add: required_fields_def u_def)
  finally show ?thesis using 1 e by simp
qed

lemma from_rows_Inr_iff:
  "from_rows rs = Inr leads \<longleftrightarrow> list_all2 (\<lambda>r lead. from_row r = Inr lead) rs leads"
proof (induction rs arbitrary: leads)
  case Nil
  then show ?case by auto
next
  case (Cons r rs)
  show ?case
    by (cases leads) (auto simp: Cons.IH[symmetric] split: sum.splits)
qed

lemma from_rows_Inl_iff:
  "from_rows rs = Inl e \<longleftrightarrow>
   (\<exists>k<length rs. (\<forall>i<k. missing (rs ! i) = []) \<and> missing (rs ! k) \<noteq> []
       \<and> e = ValueError (missing (rs ! k)))"
proof (induction rs)
  case Nil
  then show ?case by simp
next
  case (Cons r rs)
  show ?case
  proof (cases "missing r = []")
    case True
    then obtain lead where lead: "from_row r = Inr lead"
      using from_row_Inl_iff[of r] by (cases "from_row r") auto
    have "(\<exists>k<length (r # rs). (\<forall>i<k. missing ((r # rs) ! i) = []) \<and> missing ((r # rs) ! k) \<noteq> []
             \<and> e = ValueError (missing ((r # rs) ! k)))
          \<longleftrightarrow> (\<exists>k<length rs. (\<forall>i<k. missing (rs ! i) = []) \<and> missing (rs ! k) \<noteq> []
             \<and> e = ValueError (missing (rs ! k)))" (is "?a \<longleftrightarrow> ?b")
    proof
      assume ?a
      then obtain k where k: "k < length (r # rs)" "\<forall>i<k. missing ((r # rs) ! i) = []"
        "missing ((r # rs) ! k) \<noteq> []" "e = ValueError (missing ((r # rs) ! k))" by blast
      with True obtain j where j: "k = Suc j" by (cases k) auto
      have "\<forall>i<j. missing (rs ! i) = []"
      proof (intro allI impI)
        fix i assume "i < j"
        then have "Suc i < k" using j by simp
        with k(2) have "missing ((r # rs) ! Suc i) = []" by blast
        then show "missing (rs ! i) = []" by simp
      qed
      with k j show ?b by auto
    next
      assume ?b
      then obtain k where k: "k < length rs" "\<forall>i<k. missing (rs ! i) = []"
        "missing (rs ! k) \<noteq> []" "e = ValueError (missing (rs ! k))" by blast
      have "\<forall>i<Suc k. missing ((r # rs) ! i) = []"
      proof (intro allI impI)
        fix i assume "i < Suc k"
        then show "missing ((r # rs) ! i) = []" using True k(2) by (cases i) auto
      qed
      with k show ?a by (intro exI[of _ "Suc k"]) auto
    qed
    moreover have "from_rows (r # rs) = Inl e \<longleftrightarrow> from_rows rs = Inl e"
      using lead by (auto split: sum.splits)
    ultimately show ?thesis using Cons.IH by simp
  next
    case False
    then have "from_rows (r # rs) = Inl (ValueError (missing r))"
      by (simp add: from_row_missing)
    moreover have "(\<exists>k<length (r # rs). (\<forall>i<k. missing ((r # rs) ! i) = []) \<and> missing ((r # rs) ! k) \<noteq> []
             \<and> e = ValueError (missing ((r # rs) ! k))) \<longleftrightarrow> e = ValueError (missing r)"
    proof
      assume "\<exists>k<length (r # rs). (\<forall>i<k. missing ((r # rs) ! i) = []) \<and> missing ((r # rs) ! k) \<noteq> []
             \<and> e = ValueError (missing ((r # rs) ! k))"
      then obtain k where k: "\<forall>i<k. missing ((r # rs) ! i) = []" "e = ValueError (missing ((r # rs) ! k))"
        by blast
      have "k = 0"
      proof (rule ccontr)
        assume "k \<noteq> 0"
        then have "0 < k" by simp
        with k(1) have "missing ((r # rs) ! 0) = []" by blast
        with False show False by simp
      qed
      with k show "e = ValueError (missing r)" by simp
    next
      assume "e = ValueError (missing r)"
      with False show "\<exists>k<length (r # rs). (\<forall>i<k. missing ((r # rs) ! i) = []) \<and> missing ((r # rs) ! k) \<noteq> []
             \<and> e = ValueError (missing ((r # rs) ! k))"
        by (intro exI[of _ 0]) simp
    qed
    ultimately show ?thesis by auto
  qed
qed

text \<open>
  Claim C3 (as amended). For a CSV file that exists, \<open>load_leads\<close> returns a list of
  leads exactly when every row has all six required fields present and non-empty
  before trimming; the list then has one lead per row, in row order, each field being
  the row's value with the whitespace at both ends removed. (A field holding only
  whitespace passes the test and becomes the empty string, so a returned lead can have
  an empty field.) It raises exactly when some row has a required field absent or
  empty: the error is the \<open>ValueError\<close> of the first such row, listing that row's
  offending fields in the order of \<open>required_fields\<close>, and no lead is returned.
\<close>

theorem load_leads_rows:
  assumes "files w (locate p) = Some text"
  shows "(\<forall>leads. load_leads L p w = Inr leads \<longleftrightarrow>
            list_all2
              (\<lambda>r lead. \<exists>v1 v2 v3 v4 v5 v6.
                 r (u ''slug'') = Some v1 \<and> v1 \<noteq> [] \<and>
                 r (u ''business_name'') = Some v2 \<and> v2 \<noteq> [] \<and>
                 r (u ''city'') = Some v3 \<and> v3 \<noteq> [] \<and>
                 r (u ''service'') = Some v4 \<and> v4 \<noteq> [] \<and>
                 r (u ''pain_point'') = Some v5 \<and> v5 \<noteq> [] \<and>
                 r (u ''offer'') = Some v6 \<and> v6 \<noteq> [] \<and>
                 lead = \<lparr>Lead.slug = strip v1, business_name = strip v2, city = strip v3,
                          service = strip v4, pain_point = strip v5, offer = strip v6\<rparr>)
              (DictReader L text) leads)
       \<and> (\<forall>e. load_leads L p w = Inl e \<longleftrightarrow>
            (\<exists>k<length (DictReader L text).
               (\<forall>i<k. missing (DictReader L text ! i) = []) \<and>
               missing (DictReader L text ! k) \<noteq> [] \<and>
               e = ValueError (missing (DictReader L text ! k))))
       \<and> (\<forall>r. missing r = filter (\<lambda>field. r field = None \<or> r field = Some []) required_fields)"
  using assms
  by (simp add: load_leads_def from_rows_Inr_iff from_rows_Inl_iff from_row_Inr_iff missing_def falsy_def)


theorem load_leads_rows_witness:
  "load_leads
     (example_stdlib
        [[u ''slug'' \<mapsto> u '' a '', u ''business_name'' \<mapsto> u ''B'', u ''city'' \<mapsto> u ''C'',
          u ''service'' \<mapsto> u ''S'', u ''pain_point'' \<mapsto> u ''P'', u ''offer'' \<mapsto> u ''O''],
         [u ''slug'' \<mapsto> u ''b'', u ''business_name'' \<mapsto> u ''B'', u ''city'' \<mapsto> u ''C'',
          u ''service'' \<mapsto> u ''S'', u ''pain_point'' \<mapsto> u ''P'', u ''offer'' \<mapsto> u ''O'']]
        Map.empty)
     (Path (u ''/srv/app/data/leads.csv'')) (example_world [csv_file \<mapsto> u ''csv''] no_fault)
   = Inr [\<lparr>Lead.slug = u ''a'', business_name = u ''B'', city = u ''C'', service = u ''S'',
            pain_point = u ''P'', offer = u ''O''\<rparr>,
          \<lparr>Lead.slug = u ''b'', business_name = u ''B'', city = u ''C'', service = u ''S'',
            pain_point = u ''P'', offer = u ''O''\<rparr>]
   \<and> load_leads
     (example_stdlib
        [[u ''slug'' \<mapsto> u ''a'', u ''business_name'' \<mapsto> u ''B'', u ''city'' \<mapsto> u ''C'',
          u ''service'' \<mapsto> u ''S'', u ''pain_point'' \<mapsto> u ''P'', u ''offer'' \<mapsto> u ''O''],
         [u ''slug'' \<mapsto> u ''b'', u ''business_name'' \<mapsto> u ''B'', u ''city'' \<mapsto> [],
          u ''service'' \<mapsto> u ''S'', u ''pain_point'' \<mapsto> u ''P'']]
        Map.empty)
     (Path (u ''/srv/app/data/leads.csv'')) (example_world [csv_file \<mapsto> u ''csv''] no_fault)
   = Inl (ValueError [u ''city'', u ''offer''])"
proof -
  let ?w = "example_world [csv_file \<mapsto> u ''csv''] no_fault"
  let ?p = "Path (u ''/srv/app/data/leads.csv'')"
  let ?r1 = "[u ''slug'' \<mapsto> u '' a '', u ''business_name'' \<mapsto> u ''B'', u ''city'' \<mapsto> u ''C'',
          u ''service'' \<mapsto> u ''S'', u ''pain_point'' \<mapsto> u ''P'', u ''offer'' \<mapsto> u ''O'']"
  let ?r2 = "[u ''slug'' \<mapsto> u ''b'', u ''business_name'' \<mapsto> u ''B'', u ''city'' \<mapsto> u ''C'',
          u ''service'' \<mapsto> u ''S'', u ''pain_point'' \<mapsto> u ''P'', u ''offer'' \<mapsto> u ''O'']"
  let ?r3 = "[u ''slug'' \<mapsto> u ''a'', u ''business_name'' \<mapsto> u ''B'', u ''city'' \<mapsto> u ''C'',
          u ''service'' \<mapsto> u ''S'', u ''pain_point'' \<mapsto> u ''P'', u ''offer'' \<mapsto> u ''O'']"
  let ?r4 = "[u ''slug'' \<mapsto> u ''b'', u ''business_name'' \<mapsto> u ''B'', u ''city'' \<mapsto> [],
          u ''service'' \<mapsto> u ''S'', u ''pain_point'' \<mapsto> u ''P'']"
  have f: "files ?w (locate ?p) = Some (u ''csv'')"
    by (simp add: example_world_def locate_example)
  have m3: "missing ?r3 = []"
    by (simp add: missing_def required_fields_def falsy_def u_def)
  have m4: "missing ?r4 = [u ''city'', u ''offer'']"
    by (simp add: missing_def required_fields_def falsy_def u_def)
  let ?L1 = "example_stdlib [?r1, ?r2] Map.empty"
  let ?L2 = "example_stdlib [?r3, ?r4] Map.empty"
  have d1: "DictReader ?L1 (u ''csv'') = [?r1, ?r2]" and d2: "DictReader ?L2 (u ''csv'') = [?r3, ?r4]"
    by (simp_all add: example_stdlib_def)
  note T1 = load_leads_rows[OF f, of ?L1, THEN conjunct1, THEN spec]
  note T2 = load_leads_rows[OF f, of ?L2, THEN conjunct2, THEN conjunct1, THEN spec]
  have A: "load_leads ?L1 ?p ?w
      = Inr [\<lparr>Lead.slug = u ''a'', business_name = u ''B'', city = u ''C'', service = u ''S'',
            pain_point = u ''P'', offer = u ''O''\<rparr>,
          \<lparr>Lead.slug = u ''b'', business_name = u ''B'', city = u ''C'', service = u ''S'',
            pain_point = u ''P'', offer = u ''O''\<rparr>]"
    unfolding T1 d1 by (simp add: u_def strip_def isspace_def)
  have "\<exists>k<length [?r3, ?r4]. (\<forall>i<k. missing ([?r3, ?r4] ! i) = []) \<and> missing ([?r3, ?r4] ! k) \<noteq> []
          \<and> ValueError [u ''city'', u ''offer''] = ValueError (missing ([?r3, ?r4] ! k))"
    using m3 m4 by (intro exI[of _ 1]) simp
  then have B: "load_leads ?L2 ?p ?w = Inl (ValueError [u ''city'', u ''offer''])"
    unfolding T2 d2 .
  from A B show ?thesis by (rule conjI)
qed

text \<open>
  The claim as first stated also says that every returned lead has all six fields
  non-empty after trimming. A row whose city is a single space is loaded, with the
  empty string as city.
\<close>

theorem load_leads_blank_field_counterexample:
  "load_leads
     (example_stdlib
        [[u ''slug'' \<mapsto> u ''a'', u ''business_name'' \<mapsto> u ''B'', u ''city'' \<mapsto> u '' '',
          u ''service'' \<mapsto> u ''S'', u ''pain_point'' \<mapsto> u ''P'', u ''offer'' \<mapsto> u ''O'']]
        Map.empty)
     (Path (u ''/srv/app/data/leads.csv'')) (example_world [csv_file \<mapsto> u ''csv''] no_fault)
   = Inr [\<lparr>Lead.slug = u ''a'', business_name = u ''B'', city = [], service = u ''S'',
            pain_point = u ''P'', offer = u ''O''\<rparr>]"
proof -
  let ?r = "[u ''slug'' \<mapsto> u ''a'', u ''business_name'' \<mapsto> u ''B'', u ''city'' \<mapsto> u '' '',
          u ''service'' \<mapsto> u ''S'', u ''pain_point'' \<mapsto> u ''P'', u ''offer'' \<mapsto> u ''O'']"
  have "from_row ?r = Inr \<lparr>Lead.slug = strip (u ''a''), business_name = strip (u ''B''),
      city = strip (u '' ''), service = strip (u ''S''), pain_point = strip (u ''P''),
      offer = strip (u ''O'')\<rparr>"
    by (rule from_row_ok) (simp_all add: u_def)
  moreover have "strip (u ''a'') = u ''a''" "strip (u ''B'') = u ''B''" "strip (u '' '') = []"
    "strip (u ''S'') = u ''S''" "strip (u ''P'') = u ''P''" "strip (u ''O'') = u ''O''"
    by (simp_all add: strip_def isspace_def u_def)
  ultimately show ?thesis
    by (simp add: load_leads_def example_world_def example_stdlib_def locate_example)
qed

subsection \<open>The ledger\<close>

lemma load_loop_append:
  "load_loop items result =
   result @ concat (map (\<lambda>item. case item of
        JObj d \<Rightarrow> (case map_of d (u ''slug'') of
                     None \<Rightarrow> []
                   | Some s \<Rightarrow> [\<lparr>GeneratedEntry.slug = s,
                       created_at = (case map_of d (u ''created_at'') of None \<Rightarrow> JStr [] | Some v \<Rightarrow> v),
                       source = (case map_of d (u ''source'') of None \<Rightarrow> JStr (u ''data/leads.csv'') | Some v \<Rightarrow> v)\<rparr>])
      | _ \<Rightarrow> []) items)"
proof (induction items arbitrary: result)
  case Nil
  then show ?case by simp
next
  case (Cons item items)
  show ?case
    by (cases item) (simp_all add: Cons.IH dict_get_def split: option.splits)
qed

lemma load_loop_to_dict: "load_loop (map to_dict entries) result = result @ entries"
proof (induction entries arbitrary: result)
  case Nil
  then show ?case by simp
next
  case (Cons e es)
  have "load_loop (to_dict e # map to_dict es) result = load_loop (map to_dict es) (result @ [e])"
    by (cases e) (simp add: to_dict_def dict_get_def u_def)
  then show ?case by (simp add: Cons.IH)
qed

lemma load_generated_missing: "files w (locate p) = None \<Longrightarrow> load_generated L p w = Inr []"
  by (simp add: load_generated_def)

lemma load_generated_array:
  "files w (locate p) = Some text \<Longrightarrow> json_load L text = Some (JArr items) \<Longrightarrow>
   load_generated L p w = Inr (load_loop items [])"
  by (simp add: load_generated_def entries_of_def iterate_def)

lemma load_generated_object:
  "files w (locate p) = Some text \<Longrightarrow> json_load L text = Some (JObj d) \<Longrightarrow>
   map_of d (u ''generated'') = Some (JArr items) \<Longrightarrow>
   load_generated L p w = Inr (load_loop items [])"
  by (simp add: load_generated_def entries_of_def iterate_def dict_get_def)

lemma load_generated_object_no_key:
  "files w (locate p) = Some text \<Longrightarrow> json_load L text = Some (JObj d) \<Longrightarrow>
   map_of d (u ''generated'') = None \<Longrightarrow>
   load_generated L p w = Inr []"
  by (simp add: load_generated_def entries_of_def iterate_def dict_get_def)

text \<open>
  Claim C7. \<open>load_generated\<close> returns the empty list when the ledger file does not
  exist. When the file parses to an object whose \<open>generated\<close> key holds an array, or
  to a bare array, the result is read off the items of that array in order: an item
  that is not an object, or an object without the key \<open>slug\<close>, contributes nothing;
  any other item contributes one entry with the item's \<open>slug\<close>, with its
  \<open>created_at\<close> or else the empty string, and with its \<open>source\<close> or else
  \<open>data/leads.csv\<close>. An object without the key \<open>generated\<close> gives the empty list.
\<close>

theorem load_generated_cases:
  "(files w (locate p) = None \<longrightarrow> load_generated L p w = Inr [])
   \<and> (\<forall>doc items.
        files w (locate p) = Some doc \<and>
        (json_load L doc = Some (JArr items) \<or>
         (\<exists>d. json_load L doc = Some (JObj d) \<and> map_of d (u ''generated'') = Some (JArr items)))
        \<longrightarrow>
        load_generated L p w =
          Inr (concat (map (\<lambda>item. case item of
               JObj d \<Rightarrow>
                 (case map_of d (u ''slug'') of
                    None \<Rightarrow> []
                  | Some s \<Rightarrow>
                      [\<lparr>GeneratedEntry.slug = s,
                        created_at = (case map_of d (u ''created_at'') of
                                        None \<Rightarrow> JStr [] | Some v \<Rightarrow> v),
                        source = (case map_of d (u ''source'') of
                                    None \<Rightarrow> JStr (u ''data/leads.csv'') | Some v \<Rightarrow> v)\<rparr>])
             | _ \<Rightarrow> []) items)))
   \<and> (\<forall>doc d. files w (locate p) = Some doc \<and> json_load L doc = Some (JObj d) \<and>
          map_of d (u ''generated'') = None \<longrightarrow> load_generated L p w = Inr [])"
proof (intro conjI allI impI)
  assume "files w (locate p) = None"
  then show "load_generated L p w = Inr []" by (rule load_generated_missing)
next
  fix doc items
  assume a: "files w (locate p) = Some doc \<and>
        (json_load L doc = Some (JArr items) \<or>
         (\<exists>d. json_load L doc = Some (JObj d) \<and> map_of d (u ''generated'') = Some (JArr items)))"
  then have "load_generated L p w = Inr (load_loop items [])"
    using load_generated_array load_generated_object by blast
  then show "load_generated L p w =
          Inr (concat (map (\<lambda>item. case item of
               JObj d \<Rightarrow>
                 (case map_of d (u ''slug'') of
                    None \<Rightarrow> []
                  | Some s \<Rightarrow>
                      [\<lparr>GeneratedEntry.slug = s,
                        created_at = (case map_of d (u ''created_at'') of
                                        None \<Rightarrow> JStr [] | Some v \<Rightarrow> v),
                        source = (case map_of d (u ''source'') of
                                    None \<Rightarrow> JStr (u ''data/leads.csv'') | Some v \<Rightarrow> v)\<rparr>])
             | _ \<Rightarrow> []) items))"
    by (simp add: load_loop_append)
next
  fix doc d
  assume "files w (locate p) = Some doc \<and> json_load L doc = Some (JObj d) \<and>
          map_of d (u ''generated'') = None"
  then show "load_generated L p w = Inr []"
    using load_generated_object_no_key by blast
qed

theorem load_generated_cases_witness:
  "load_generated (example_stdlib [] Map.empty) (Path (u ''/srv/app/data/generated.json'')) (example_world Map.empty no_fault)
     = Inr []
   \<and> load_generated
       (example_stdlib []
          [u ''old'' \<mapsto>
             JArr [JNum 3,
                   JObj [(u ''slug'', JStr (u ''a''))],
                   JObj [(u ''created_at'', JStr (u ''t''))],
                   JObj [(u ''source'', JStr (u ''s'')), (u ''slug'', JStr (u ''b'')),
                         (u ''created_at'', JStr (u ''t''))]]])
       (Path (u ''/srv/app/data/generated.json'')) (example_world [ledger_file \<mapsto> u ''old''] no_fault)
     = Inr [\<lparr>GeneratedEntry.slug = JStr (u ''a''), created_at = JStr [],
             source = JStr (u ''data/leads.csv'')\<rparr>,
            \<lparr>GeneratedEntry.slug = JStr (u ''b''), created_at = JStr (u ''t''),
             source = JStr (u ''s'')\<rparr>]
   \<and> load_generated
       (example_stdlib []
          [u ''new'' \<mapsto>
             JObj [(u ''generated'', JArr [JStr (u ''a''), JObj [(u ''slug'', JStr (u ''a''))]])]])
       (Path (u ''/srv/app/data/generated.json'')) (example_world [ledger_file \<mapsto> u ''new''] no_fault)
     = Inr [\<lparr>GeneratedEntry.slug = JStr (u ''a''), created_at = JStr [],
             source = JStr (u ''data/leads.csv'')\<rparr>]"
proof (intro conjI)
  let ?w0 = "example_world Map.empty no_fault"
  have "files ?w0 (locate (Path (u ''/srv/app/data/generated.json''))) = None" by (simp add: example_world_def locate_example)
  with load_generated_cases[of ?w0 "Path (u ''/srv/app/data/generated.json'')" "example_stdlib [] Map.empty"]
  show "load_generated (example_stdlib [] Map.empty) (Path (u ''/srv/app/data/generated.json'')) ?w0 = Inr []"
    by blast
next
  let ?items = "[JNum 3,
                   JObj [(u ''slug'', JStr (u ''a''))],
                   JObj [(u ''created_at'', JStr (u ''t''))],
                   JObj [(u ''source'', JStr (u ''s'')), (u ''slug'', JStr (u ''b'')),
                         (u ''created_at'', JStr (u ''t''))]]"
  let ?L = "example_stdlib [] [u ''old'' \<mapsto> JArr ?items]"
  let ?w = "example_world [ledger_file \<mapsto> u ''old''] no_fault"
  have "files ?w (locate (Path (u ''/srv/app/data/generated.json''))) = Some (u ''old'') \<and>
        (json_load ?L (u ''old'') = Some (JArr ?items) \<or>
         (\<exists>d. json_load ?L (u ''old'') = Some (JObj d) \<and> map_of d (u ''generated'') = Some (JArr ?items)))"
    by (simp add: example_world_def example_stdlib_def locate_example)
  from load_generated_cases[of ?w "Path (u ''/srv/app/data/generated.json'')" ?L, THEN conjunct2, THEN conjunct1, rule_format, OF this]
  show "load_generated ?L (Path (u ''/srv/app/data/generated.json'')) ?w
     = Inr [\<lparr>GeneratedEntry.slug = JStr (u ''a''), created_at = JStr [],
             source = JStr (u ''data/leads.csv'')\<rparr>,
            \<lparr>GeneratedEntry.slug = JStr (u ''b''), created_at = JStr (u ''t''),
             source = JStr (u ''s'')\<rparr>]"
    by (simp add: u_def)
next
  let ?items = "[JStr (u ''a''), JObj [(u ''slug'', JStr (u ''a''))]]"
  let ?L = "example_stdlib [] [u ''new'' \<mapsto> JObj [(u ''generated'', JArr ?items)]]"
  let ?w = "example_world [ledger_file \<mapsto> u ''new''] no_fault"
  have "files ?w (locate (Path (u ''/srv/app/data/generated.json''))) = Some (u ''new'') \<and>
        (json_load ?L (u ''new'') = Some (JArr ?items) \<or>
         (\<exists>d. json_load ?L (u ''new'') = Some (JObj d) \<and> map_of d (u ''generated'') = Some (JArr ?items)))"
    by (simp add: example_world_def example_stdlib_def locate_example)
  from load_generated_cases[of ?w "Path (u ''/srv/app/data/generated.json'')" ?L, THEN conjunct2, THEN conjunct1, rule_format, OF this]
  show "load_generated ?L (Path (u ''/srv/app/data/generated.json'')) ?w
     = Inr [\<lparr>GeneratedEntry.slug = JStr (u ''a''), created_at = JStr [],
             source = JStr (u ''data/leads.csv'')\<rparr>]"
    by (simp add: u_def)
qed


lemma save_generated_Inr_iff:
  "save_generated L p entries w = (Inr (), w') \<longleftrightarrow>
   fault w (tick w) = None \<and> fault w (Suc (tick w)) = None \<and>
   w' = w\<lparr>dirs := insert (locate (parent p)) (dirs w),
           files := (files w)(locate p \<mapsto> json_dumps L (payload entries) @ u ''\<newline>''),
           writes := writes w @ [p],
           tick := Suc (Suc (tick w))\<rparr>"
  by (auto simp: save_generated_def mkdir_def write_text_def split: option.splits damage.splits)

lemma save_generated_ok:
  "fault w (tick w) = None \<Longrightarrow> fault w (Suc (tick w)) = None \<Longrightarrow>
   fst (save_generated L p entries w) = Inr ()"
  by (simp add: save_generated_def mkdir_def write_text_def)

text \<open>
  Claim C5. Let \<open>json.load\<close> read back what \<open>json.dumps\<close> wrote for the payload of
  \<open>entries\<close> (the property of the \<open>json\<close> module the round trip rests on). Then
  \<open>save_generated\<close> succeeds when neither of its two file system operations fails,
  and whenever it succeeds \<open>load_generated\<close> on the file it wrote returns exactly
  \<open>entries\<close>: the same entries, with the same three fields, in the same order. The
  same list is loaded from a file that holds the bare array of the entries' dicts.
\<close>

theorem save_generated_roundtrip:
  assumes "json_load L (json_dumps L (payload entries) @ u ''\<newline>'') = Some (payload entries)"
  shows "(fault w (tick w) = None \<and> fault w (Suc (tick w)) = None \<longrightarrow>
            fst (save_generated L p entries w) = Inr ())
       \<and> (fst (save_generated L p entries w) = Inr () \<longrightarrow>
            load_generated L p (snd (save_generated L p entries w)) = Inr entries)
       \<and> (\<forall>w0 doc. files w0 (locate p) = Some doc \<and> json_load L doc = Some (JArr (map to_dict entries)) \<longrightarrow>
            load_generated L p w0 = Inr entries)"
proof (intro conjI allI impI)
  assume "fault w (tick w) = None \<and> fault w (Suc (tick w)) = None"
  then show "fst (save_generated L p entries w) = Inr ()"
    by (simp add: save_generated_ok)
next
  assume ok: "fst (save_generated L p entries w) = Inr ()"
  obtain w' where w': "save_generated L p entries w = (Inr (), w')"
    using ok by (cases "save_generated L p entries w") auto
  then have f: "files w' (locate p) = Some (json_dumps L (payload entries) @ u ''\<newline>'')"
    by (simp add: save_generated_Inr_iff)
  have m: "map_of [(u ''generated'', JArr (map to_dict entries))] (u ''generated'')
      = Some (JArr (map to_dict entries))" by simp
  have "load_generated L p w' = Inr (load_loop (map to_dict entries) [])"
    by (rule load_generated_object[OF f[unfolded payload_def] assms[unfolded payload_def] m])
  then show "load_generated L p (snd (save_generated L p entries w)) = Inr entries"
    using w' by (simp add: load_loop_to_dict)
next
  fix w0 :: world and doc
  assume "files w0 (locate p) = Some doc \<and> json_load L doc = Some (JArr (map to_dict entries))"
  then have "load_generated L p w0 = Inr (load_loop (map to_dict entries) [])"
    using load_generated_array by blast
  then show "load_generated L p w0 = Inr entries"
    by (simp add: load_loop_to_dict)
qed

theorem save_generated_roundtrip_witness:
  "load_generated
     (example_stdlib []
        [u ''<json>\<newline>'' \<mapsto>
           payload [\<lparr>GeneratedEntry.slug = JStr (u ''a''), created_at = JStr (u ''t''),
                     source = JStr (u ''s'')\<rparr>,
                    \<lparr>GeneratedEntry.slug = JStr (u ''b''), created_at = JStr [],
                     source = JNull\<rparr>]])
     (Path (u ''/srv/app/data/generated.json''))
     (snd (save_generated
        (example_stdlib []
          [u ''<json>\<newline>'' \<mapsto>
             payload [\<lparr>GeneratedEntry.slug = JStr (u ''a''), created_at = JStr (u ''t''),
                       source = JStr (u ''s'')\<rparr>,
                      \<lparr>GeneratedEntry.slug = JStr (u ''b''), created_at = JStr [],
                       source = JNull\<rparr>]])
        (Path (u ''/srv/app/data/generated.json''))
        [\<lparr>GeneratedEntry.slug = JStr (u ''a''), created_at = JStr (u ''t''),
           source = JStr (u ''s'')\<rparr>,
         \<lparr>GeneratedEntry.slug = JStr (u ''b''), created_at = JStr [], source = JNull\<rparr>]
        (example_world Map.empty no_fault)))
   = Inr [\<lparr>GeneratedEntry.slug = JStr (u ''a''), created_at = JStr (u ''t''),
            source = JStr (u ''s'')\<rparr>,
          \<lparr>GeneratedEntry.slug = JStr (u ''b''), created_at = JStr [], source = JNull\<rparr>]"
proof -
  let ?es = "[\<lparr>GeneratedEntry.slug = JStr (u ''a''), created_at = JStr (u ''t''),
                source = JStr (u ''s'')\<rparr>,
              \<lparr>GeneratedEntry.slug = JStr (u ''b''), created_at = JStr [], source = JNull\<rparr>]"
  let ?L = "example_stdlib [] [u ''<json>\<newline>'' \<mapsto> payload ?es]"
  let ?w = "example_world Map.empty no_fault"
  have h: "json_load ?L (json_dumps ?L (payload ?es) @ u ''\<newline>'') = Some (payload ?es)"
    by (simp add: example_stdlib_def example_dumps_def u_def)
  have f: "fault ?w (tick ?w) = None \<and> fault ?w (Suc (tick ?w)) = None"
    by (simp add: example_world_def no_fault_def)
  note T = save_generated_roundtrip[OF h, of ?w "Path (u ''/srv/app/data/generated.json'')"]
  from T f have "fst (save_generated ?L (Path (u ''/srv/app/data/generated.json'')) ?es ?w) = Inr ()" by blast
  with T show ?thesis by blast
qed

subsection \<open>Selecting the batch\<close>

lemma generated_slugs_hashable:
  "\<forall>e\<in>set entries. hashable (GeneratedEntry.slug e) \<Longrightarrow>
   generated_slugs entries = Inr (GeneratedEntry.slug ` set entries)"
  by (simp add: generated_slugs_def list_all_iff)

text \<open>
  Claim C1 (as amended). For every list of leads and every list of ledger entries
  whose slugs are hashable values (strings, numbers, booleans, null), the set of
  generated slugs is built, \<open>fresh_leads\<close> is the sublist of the leads whose slug is
  the slug of no ledger entry, in the order of the CSV file, and \<open>batch\<close> is its
  first 40 elements.
\<close>

theorem fresh_batch_selection:
  assumes "\<forall>e\<in>set entries. hashable (GeneratedEntry.slug e)"
  shows "\<exists>slugs. generated_slugs entries = Inr slugs
           \<and> fresh_leads slugs leads =
               filter (\<lambda>lead. \<forall>e\<in>set entries. GeneratedEntry.slug e \<noteq> JStr (Lead.slug lead)) leads
           \<and> batch (fresh_leads slugs leads) = take 40 (fresh_leads slugs leads)"
proof -
  have "generated_slugs entries = Inr (GeneratedEntry.slug ` set entries)"
    using assms by (rule generated_slugs_hashable)
  moreover have "fresh_leads (GeneratedEntry.slug ` set entries) leads =
      filter (\<lambda>lead. \<forall>e\<in>set entries. GeneratedEntry.slug e \<noteq> JStr (Lead.slug lead)) leads"
  proof -
    have "(\<lambda>x. JStr (Lead.slug x) \<notin> GeneratedEntry.slug ` set entries) =
        (\<lambda>x. \<forall>e\<in>set entries. GeneratedEntry.slug e \<noteq> JStr (Lead.slug x))"
      by (rule ext) (metis image_iff)
    then show ?thesis unfolding fresh_leads_def by (rule arg_cong)
  qed
  moreover have "batch (fresh_leads (GeneratedEntry.slug ` set entries) leads)
      = take 40 (fresh_leads (GeneratedEntry.slug ` set entries) leads)"
    by (simp add: batch_def BATCH_SIZE_def)
  ultimately show ?thesis by blast
qed

theorem fresh_batch_selection_witness:
  "\<exists>slugs. generated_slugs [example_entry (JStr (u ''A'')), example_entry (JStr (u ''B''))] = Inr slugs
     \<and> fresh_leads slugs [example_lead (u ''A''), example_lead (u ''B''), example_lead (u ''C''),
                           example_lead (u ''D'')]
       = [example_lead (u ''C''), example_lead (u ''D'')]
     \<and> batch (fresh_leads slugs [example_lead (u ''A''), example_lead (u ''B''),
                                  example_lead (u ''C''), example_lead (u ''D'')])
       = [example_lead (u ''C''), example_lead (u ''D'')]"
proof -
  let ?es = "[example_entry (JStr (u ''A'')), example_entry (JStr (u ''B''))]"
  let ?ls = "[example_lead (u ''A''), example_lead (u ''B''), example_lead (u ''C''),
              example_lead (u ''D'')]"
  have h: "\<forall>e\<in>set ?es. hashable (GeneratedEntry.slug e)"
    by (simp add: example_entry_def hashable_def)
  have f: "filter (\<lambda>lead. \<forall>e\<in>set ?es. GeneratedEntry.slug e \<noteq> JStr (Lead.slug lead)) ?ls
      = [example_lead (u ''C''), example_lead (u ''D'')]"
    by (simp add: example_entry_def example_lead_def u_def)
  from fresh_batch_selection[OF h, of ?ls] obtain slugs where
    s: "generated_slugs ?es = Inr slugs"
      "fresh_leads slugs ?ls
        = filter (\<lambda>lead. \<forall>e\<in>set ?es. GeneratedEntry.slug e \<noteq> JStr (Lead.slug lead)) ?ls"
      "batch (fresh_leads slugs ?ls) = take 40 (fresh_leads slugs ?ls)"
    by blast
  from s(2) f have 2: "fresh_leads slugs ?ls = [example_lead (u ''C''), example_lead (u ''D'')]"
    by simp
  from s(3) 2 have "batch (fresh_leads slugs ?ls) = [example_lead (u ''C''), example_lead (u ''D'')]"
    by simp
  with s(1) 2 show ?thesis by blast
qed


lemma from_row_example:
  assumes "s \<noteq> []"
  shows "from_row (example_row s) = Inr (example_lead (strip s))"
proof -
  have "from_row (example_row s) =
      Inr \<lparr>Lead.slug = strip s, business_name = strip (u ''Acme Plumbing''),
           city = strip (u ''Berlin''), service = strip (u ''Klempnerei''),
           pain_point = strip (u ''Verlorene Anfragen''),
           offer = strip (u ''Kostenlose Erstberatung'')\<rparr>"
    using assms by (intro from_row_ok) (simp_all add: example_row_def u_def)
  moreover have "strip (u ''Acme Plumbing'') = u ''Acme Plumbing''"
    "strip (u ''Berlin'') = u ''Berlin''" "strip (u ''Klempnerei'') = u ''Klempnerei''"
    "strip (u ''Verlorene Anfragen'') = u ''Verlorene Anfragen''"
    "strip (u ''Kostenlose Erstberatung'') = u ''Kostenlose Erstberatung''"
    by (simp_all add: strip_def isspace_def u_def)
  ultimately show ?thesis by (simp add: example_lead_def)
qed

lemma module_paths:
  "root (CSV_PATH L) = u ''/''" "names (CSV_PATH L) = module_root L @ [u ''data'', u ''leads.csv'']"
  "root (GENERATED_PATH L) = u ''/''"
  "names (GENERATED_PATH L) = module_root L @ [u ''data'', u ''generated.json'']"
  "root (OUTPUT_DIR L) = u ''/''" "names (OUTPUT_DIR L) = module_root L @ [u ''pages'']"
  by (simp_all add: CSV_PATH_def GENERATED_PATH_def OUTPUT_DIR_def ROOT_def joinpath_def Path_def
      parse_root_def str_split_def u_def)

lemma example_files:
  "locate (CSV_PATH (example_stdlib rows docs)) = csv_file"
  "locate (GENERATED_PATH (example_stdlib rows docs)) = ledger_file"
  "csv_file \<noteq> ledger_file" "ledger_file \<noteq> csv_file"
  by (simp_all add: locate_def module_paths example_stdlib_def csv_file_def ledger_file_def u_def)

text \<open>
  The claim as first stated holds for every loaded ledger. A ledger file whose
  single entry has a list as slug is loaded by \<open>load_generated\<close>, and \<open>main\<close>
  then raises \<open>TypeError\<close> on building the set of slugs: no fresh list is computed.
\<close>

theorem main_unhashable_slug_counterexample:
  "main (example_stdlib [example_row (u ''C'')]
           [u ''ledger'' \<mapsto> JArr [JObj [(u ''slug'', JArr [])]]])
        (example_world [csv_file \<mapsto> u ''csv'', ledger_file \<mapsto> u ''ledger''] no_fault)
   = (Inl TypeError,
      example_world [csv_file \<mapsto> u ''csv'', ledger_file \<mapsto> u ''ledger''] no_fault)"
proof -
  let ?L = "example_stdlib [example_row (u ''C'')]
           [u ''ledger'' \<mapsto> JArr [JObj [(u ''slug'', JArr [])]]]"
  let ?w = "example_world [csv_file \<mapsto> u ''csv'', ledger_file \<mapsto> u ''ledger''] no_fault"
  have "from_row (example_row (u ''C'')) = Inr (example_lead (strip (u ''C'')))"
    by (rule from_row_example) (simp add: u_def)
  then have 1: "load_leads ?L (CSV_PATH ?L) ?w = Inr [example_lead (strip (u ''C''))]"
    unfolding load_leads_def example_files
    by (simp add: example_world_def example_stdlib_def example_files(3,4))
  have 2: "load_generated ?L (GENERATED_PATH ?L) ?w
      = Inr [\<lparr>GeneratedEntry.slug = JArr [], created_at = JStr [],
              source = JStr (u ''data/leads.csv'')\<rparr>]"
    unfolding load_generated_def example_files
    by (simp add: example_world_def example_stdlib_def entries_of_def iterate_def dict_get_def
        u_def example_files(3,4))
  have 3: "generated_slugs [\<lparr>GeneratedEntry.slug = JArr [], created_at = JStr [],
              source = JStr (u ''data/leads.csv'')\<rparr>] = Inl TypeError"
    by (simp add: generated_slugs_def hashable_def)
  show ?thesis
    by (simp add: main_def 1 2 3)
qed

subsection \<open>A run without fresh leads\<close>

text \<open>
  Claim C2. When the batch \<open>main\<close> computes is empty, \<open>main\<close> returns normally and
  the world it leaves differs from the one it found only by the line
  \<open>No new leads to generate.\<close> added to the standard output: the files (pages and
  ledger alike) and the directories are the same, no \<open>write_text\<close> was logged and
  no file system operation was issued.
\<close>

theorem main_no_new_leads:
  assumes "load_leads L (CSV_PATH L) w = Inr leads"
    and "load_generated L (GENERATED_PATH L) w = Inr entries"
    and "generated_slugs entries = Inr slugs"
    and "batch (fresh_leads slugs leads) = []"
  shows "main L w = (Inr (), w\<lparr>stdout := stdout w @ [u ''No new leads to generate.'']\<rparr>)
       \<and> files (snd (main L w)) = files w
       \<and> dirs (snd (main L w)) = dirs w
       \<and> writes (snd (main L w)) = writes w
       \<and> tick (snd (main L w)) = tick w"
  using assms by (simp add: main_def print_def)

theorem main_no_new_leads_witness:
  "main (example_stdlib [example_row (u ''A'')]
           [u ''ledger'' \<mapsto> JObj [(u ''generated'', JArr [JObj [(u ''slug'', JStr (u ''A''))]])]])
        (example_world [csv_file \<mapsto> u ''csv'', ledger_file \<mapsto> u ''ledger''] no_fault)
   = (Inr (),
      (example_world [csv_file \<mapsto> u ''csv'', ledger_file \<mapsto> u ''ledger''] no_fault)
        \<lparr>stdout := [u ''No new leads to generate.'']\<rparr>)"
proof -
  let ?L = "example_stdlib [example_row (u ''A'')]
           [u ''ledger'' \<mapsto> JObj [(u ''generated'', JArr [JObj [(u ''slug'', JStr (u ''A''))]])]]"
  let ?w = "example_world [csv_file \<mapsto> u ''csv'', ledger_file \<mapsto> u ''ledger''] no_fault"
  let ?e = "\<lparr>GeneratedEntry.slug = JStr (u ''A''), created_at = JStr [],
              source = JStr (u ''data/leads.csv'')\<rparr>"
  have "from_row (example_row (u ''A'')) = Inr (example_lead (strip (u ''A'')))"
    by (rule from_row_example) (simp add: u_def)
  moreover have "strip (u ''A'') = u ''A''" by (simp add: strip_def isspace_def u_def)
  ultimately have 1: "load_leads ?L (CSV_PATH ?L) ?w = Inr [example_lead (u ''A'')]"
    unfolding load_leads_def example_files
    by (simp add: example_world_def example_stdlib_def example_files(3,4))
  have 2: "load_generated ?L (GENERATED_PATH ?L) ?w = Inr [?e]"
    unfolding load_generated_def example_files
    by (simp add: example_world_def example_stdlib_def entries_of_def iterate_def dict_get_def
        u_def example_files(3,4))
  have 3: "generated_slugs [?e] = Inr {JStr (u ''A'')}"
    by (simp add: generated_slugs_def hashable_def)
  have 4: "batch (fresh_leads {JStr (u ''A'')} [example_lead (u ''A'')]) = []"
    by (simp add: batch_def fresh_leads_def example_lead_def)
  have "stdout ?w = []" by (simp add: example_world_def)
  with main_no_new_leads[OF 1 2 3 4] show ?thesis by simp
qed

subsection \<open>The paths of the pages\<close>

lemma split_from_no_sep: "sep \<notin> set t \<Longrightarrow> split_from sep cur t = [cur @ t]"
  by (induction t arbitrary: cur) auto

lemma split_from_not_Nil: "split_from sep cur s \<noteq> []"
  by (induction s arbitrary: cur) auto

lemma split_from_suffix:
  "sep \<notin> set t \<Longrightarrow>
   split_from sep cur (s @ t) = butlast (split_from sep cur s) @ [last (split_from sep cur s) @ t]"
proof (induction s arbitrary: cur)
  case Nil
  then show ?case by (simp add: split_from_no_sep)
next
  case (Cons c s)
  then show ?case by (simp add: split_from_not_Nil)
qed

lemma html_name: "last (x @ u ''.html'') = 108" "x @ u ''.html'' \<noteq> []"
  by (simp_all add: u_def)

lemma names_Path_html:
  "\<exists>ns x. names (Path (s @ u ''.html'')) = ns @ [x @ u ''.html'']"
proof -
  have "of_char CHR ''/'' \<notin> set (u ''.html'')" by (simp add: u_def)
  then have "str_split (of_char CHR ''/'') (s @ u ''.html'') =
      butlast (str_split (of_char CHR ''/'') s) @ [last (str_split (of_char CHR ''/'') s) @ u ''.html'']"
    unfolding str_split_def by (rule split_from_suffix)
  moreover have "last (str_split (of_char CHR ''/'') s) @ u ''.html'' \<noteq> u ''.''"
    "last (str_split (of_char CHR ''/'') s) @ u ''.html'' \<noteq> []"
    by (simp_all add: u_def)
  ultimately have "names (Path (s @ u ''.html'')) =
      filter (\<lambda>name. name \<noteq> [] \<and> name \<noteq> u ''.'') (butlast (str_split (of_char CHR ''/'') s))
      @ [last (str_split (of_char CHR ''/'') s) @ u ''.html'']"
    by (simp add: Path_def)
  then show ?thesis by blast
qed

lemma names_output_file:
  "\<exists>ns x. names (output_file L lead) = ns @ [x @ u ''.html'']"
proof -
  obtain ns x where n: "names (Path (Lead.slug lead @ u ''.html'')) = ns @ [x @ u ''.html'']"
    using names_Path_html by blast
  show ?thesis
  proof (cases "root (Path (Lead.slug lead @ u ''.html'')) \<noteq> []")
    case True
    then show ?thesis using n by (simp add: output_file_def joinpath_def)
  next
    case False
    then have "names (output_file L lead) = (names (OUTPUT_DIR L) @ ns) @ [x @ u ''.html'']"
      using n by (simp add: output_file_def joinpath_def)
    then show ?thesis by blast
  qed
qed

lemma locate_snoc:
  "names p = ns @ [name] \<Longrightarrow> name \<noteq> u ''..'' \<Longrightarrow>
   locate p = locate \<lparr>root = root p, names = ns\<rparr> @ [name]"
  by (simp add: locate_def)

lemma locate_output_file: "\<exists>dir x. locate (output_file L lead) = dir @ [x @ u ''.html'']"
proof -
  obtain ns x where n: "names (output_file L lead) = ns @ [x @ u ''.html'']"
    using names_output_file by blast
  have "x @ u ''.html'' \<noteq> u ''..''"
    using html_name(1)[of x] by (auto simp: u_def)
  from locate_snoc[OF n this] show ?thesis by blast
qed

lemma locate_ledger: "\<exists>dir. locate (GENERATED_PATH L) = dir @ [u ''generated.json'']"
proof -
  have "names (GENERATED_PATH L) = (module_root L @ [u ''data'']) @ [u ''generated.json'']"
    by (simp add: module_paths)
  moreover have "u ''generated.json'' \<noteq> u ''..''" by (simp add: u_def)
  ultimately show ?thesis using locate_snoc by blast
qed

lemma output_file_not_ledger: "locate (output_file L lead) \<noteq> locate (GENERATED_PATH L)"
proof
  assume eq: "locate (output_file L lead) = locate (GENERATED_PATH L)"
  obtain dir x where 1: "locate (output_file L lead) = dir @ [x @ u ''.html'']"
    using locate_output_file by blast
  obtain dir' where 2: "locate (GENERATED_PATH L) = dir' @ [u ''generated.json'']"
    using locate_ledger by blast
  from eq 1 2 have "x @ u ''.html'' = u ''generated.json''" by simp
  then have "last (x @ u ''.html'') = last (u ''generated.json'')" by simp
  then show False by (simp add: html_name u_def)
qed

lemma output_file_not_others:
  "output_file L lead \<noteq> GENERATED_PATH L"
  "output_file L lead \<noteq> OUTPUT_DIR L"
  "output_file L lead \<noteq> parent (GENERATED_PATH L)"
proof -
  obtain ns x where n: "names (output_file L lead) = ns @ [x @ u ''.html'']"
    using names_output_file by blast
  have l: "last (names (output_file L lead)) = x @ u ''.html''" using n by simp
  have ne: "x @ u ''.html'' \<noteq> u ''generated.json''" "x @ u ''.html'' \<noteq> u ''pages''"
    "x @ u ''.html'' \<noteq> u ''data''"
    using html_name(1)[of x] by (auto simp: u_def)
  show "output_file L lead \<noteq> GENERATED_PATH L"
    using l ne by (auto simp: module_paths)
  show "output_file L lead \<noteq> OUTPUT_DIR L"
    using l ne by (auto simp: module_paths)
  have "names (parent (GENERATED_PATH L)) = module_root L @ [u ''data'']"
    by (simp add: parent_def module_paths butlast_append)
  then show "output_file L lead \<noteq> parent (GENERATED_PATH L)"
    using l ne by auto
qed

text \<open>What \<open>relative_to(ROOT)\<close> gives for the paths of the module.\<close>

lemma source_path:
  "relative_to (CSV_PATH L) (ROOT L) = Inr \<lparr>root = [], names = [u ''data'', u ''leads.csv'']\<rparr>"
  "path_str \<lparr>root = [], names = [u ''data'', u ''leads.csv'']\<rparr> = u ''data/leads.csv''"
  by (simp_all add: relative_to_def module_paths ROOT_def path_str_def u_def)

lemma ledger_shown:
  "relative_to (GENERATED_PATH L) (ROOT L) =
     Inr \<lparr>root = [], names = [u ''data'', u ''generated.json'']\<rparr>"
  by (simp add: relative_to_def module_paths ROOT_def)


subsection \<open>The effects of one step\<close>

lemma render_page_world: "snd (render_page L lead w) = w\<lparr>tick := Suc (tick w)\<rparr>"
  by (simp add: render_page_def utcnow_def)

lemma render_page_html:
  "fst (render_page L lead w) = html L (strftime (u ''%d.%m.%Y'') (clock w (tick w))) lead"
  by (simp add: render_page_def utcnow_def)

lemma write_text_Inr_iff:
  "write_text p s w = (Inr x, w') \<longleftrightarrow>
   fault w (tick w) = None \<and>
   w' = w\<lparr>files := (files w)(locate p \<mapsto> s), writes := writes w @ [p], tick := Suc (tick w)\<rparr>"
  by (auto simp: write_text_def split: option.splits damage.splits)

lemma write_text_Inl:
  assumes "write_text p s w = (Inl e, w')"
  shows "e = OSError p" "writes w' = writes w" "dirs w' = dirs w" "stdout w' = stdout w"
    "\<And>q. q \<noteq> locate p \<Longrightarrow> files w' q = files w q"
    "\<And>q. files w q \<noteq> None \<Longrightarrow> files w' q \<noteq> None"
  using assms by (auto simp: write_text_def split: option.splits damage.splits)

lemma mkdir_Inr_iff:
  "mkdir p w = (Inr x, w') \<longleftrightarrow>
   fault w (tick w) = None \<and> w' = w\<lparr>dirs := insert (locate p) (dirs w), tick := Suc (tick w)\<rparr>"
  by (auto simp: mkdir_def split: option.splits)

lemma mkdir_Inl:
  assumes "mkdir p w = (Inl e, w')"
  shows "e = OSError p" "w' = w\<lparr>tick := Suc (tick w)\<rparr>"
  using assms by (auto simp: mkdir_def split: option.splits)

subsection \<open>The page loop\<close>

text \<open>One iteration, with the source path computed.\<close>

lemma batch_loop_Cons:
  "batch_loop L ts (lead # rest) es w =
     (case write_text (output_file L lead) (fst (render_page L lead w)) (w\<lparr>tick := Suc (tick w)\<rparr>) of
        (Inl e, w2) \<Rightarrow> (Inl e, w2)
      | (Inr x, w2) \<Rightarrow>
          (case relative_to (output_file L lead) (ROOT L) of
             Inl e \<Rightarrow> (Inl e, w2)
           | Inr shown \<Rightarrow>
               batch_loop L ts rest (es @ [new_entry ts (u ''data/leads.csv'') lead])
                 (print (u ''Generated '' @ path_str shown) w2)))"
  by (simp add: case_prod_unfold render_page_world source_path split: sum.splits)

declare batch_loop.simps(2) [simp del]



lemma relative_to_Inl: "relative_to p other = Inl e \<Longrightarrow> e = RelativeToError p other"
  by (simp add: relative_to_def split: if_splits)

text \<open>
  A loop that fails on a \<open>write_text\<close> has processed a part \<open>done\<close> of the batch and
  failed on the write of the next lead: the writes logged are those of \<open>done\<close>, no
  file is removed, only the files of the pages reached can differ, and each page of
  \<open>done\<close> whose file is not the one of the failing page holds a rendering of a lead
  of \<open>done\<close> with that file.
\<close>

lemma batch_loop_Inl:
  "batch_loop L ts b es w = (Inl (OSError p), w') \<Longrightarrow>
   \<exists>done l rest. b = done @ l # rest \<and> p = output_file L l \<and>
     writes w' = writes w @ map (output_file L) done \<and> dirs w' = dirs w \<and>
     (\<forall>q. files w q \<noteq> None \<longrightarrow> files w' q \<noteq> None) \<and>
     (\<forall>q. q \<notin> (\<lambda>d. locate (output_file L d)) ` set (done @ [l]) \<longrightarrow> files w' q = files w q) \<and>
     (\<forall>d\<in>set done. files w' (locate (output_file L d)) \<noteq> None \<and>
        (locate (output_file L d) \<noteq> locate (output_file L l) \<longrightarrow>
           (\<exists>d'\<in>set done. \<exists>w''. locate (output_file L d') = locate (output_file L d) \<and>
               files w' (locate (output_file L d)) = Some (fst (render_page L d' w'')))))"
proof (induction b arbitrary: es w)
  case Nil
  then show ?case by simp
next
  case (Cons l0 b)
  let ?w1 = "w\<lparr>tick := Suc (tick w)\<rparr>"
  let ?page = "fst (render_page L l0 w)"
  let ?f0 = "locate (output_file L l0)"
  obtain r w2 where wt: "write_text (output_file L l0) ?page ?w1 = (r, w2)"
    by (cases "write_text (output_file L l0) ?page ?w1")
  show ?case
  proof (cases r)
    case (Inl e0)
    with Cons.prems wt have ew: "OSError p = e0" "w' = w2" by (simp_all add: batch_loop_Cons)
    note F = write_text_Inl[OF wt[unfolded Inl]]
    have "l0 # b = [] @ l0 # b \<and> p = output_file L l0 \<and>
     writes w' = writes w @ map (output_file L) [] \<and> dirs w' = dirs w \<and>
     (\<forall>q. files w q \<noteq> None \<longrightarrow> files w' q \<noteq> None) \<and>
     (\<forall>q. q \<notin> (\<lambda>d. locate (output_file L d)) ` set ([] @ [l0]) \<longrightarrow> files w' q = files w q) \<and>
     (\<forall>d\<in>set []. files w' (locate (output_file L d)) \<noteq> None \<and>
        (locate (output_file L d) \<noteq> locate (output_file L l0) \<longrightarrow>
           (\<exists>d'\<in>set []. \<exists>w''. locate (output_file L d') = locate (output_file L d) \<and>
               files w' (locate (output_file L d)) = Some (fst (render_page L d' w'')))))"
      using F ew(1) by (simp add: ew(2))
    then show ?thesis by blast
  next
    case (Inr x)
    with wt have w2: "w2 = ?w1\<lparr>files := (files ?w1)(?f0 \<mapsto> ?page),
        writes := writes ?w1 @ [output_file L l0], tick := Suc (tick ?w1)\<rparr>"
      by (simp add: write_text_Inr_iff)
    from Cons.prems wt Inr obtain shown where
      sh: "relative_to (output_file L l0) (ROOT L) = Inr shown"
      by (cases "relative_to (output_file L l0) (ROOT L)")
        (auto simp: batch_loop_Cons dest: relative_to_Inl)
    let ?w3 = "print (u ''Generated '' @ path_str shown) w2"
    from Cons.prems wt Inr sh have
      rec: "batch_loop L ts b (es @ [new_entry ts (u ''data/leads.csv'') l0]) ?w3
              = (Inl (OSError p), w')"
      by (simp add: batch_loop_Cons)
    have f3: "files ?w3 = (files w)(?f0 \<mapsto> ?page)"
      and wr3: "writes ?w3 = writes w @ [output_file L l0]" and d3: "dirs ?w3 = dirs w"
      by (simp_all add: w2 print_def)
    from Cons.IH[OF rec] obtain dn l rest where
      b: "b = dn @ l # rest" and e: "p = output_file L l"
      and wr: "writes w' = writes ?w3 @ map (output_file L) dn" and di: "dirs w' = dirs ?w3"
      and mono: "\<forall>q. files ?w3 q \<noteq> None \<longrightarrow> files w' q \<noteq> None"
      and frame: "\<forall>q. q \<notin> (\<lambda>d. locate (output_file L d)) ` set (dn @ [l]) \<longrightarrow>
                    files w' q = files ?w3 q"
      and pages: "\<forall>d\<in>set dn. files w' (locate (output_file L d)) \<noteq> None \<and>
        (locate (output_file L d) \<noteq> locate (output_file L l) \<longrightarrow>
           (\<exists>d'\<in>set dn. \<exists>w''. locate (output_file L d') = locate (output_file L d) \<and>
               files w' (locate (output_file L d)) = Some (fst (render_page L d' w''))))"
      by blast
    have 1: "l0 # b = (l0 # dn) @ l # rest" using b by simp
    have 2: "writes w' = writes w @ map (output_file L) (l0 # dn)" using wr wr3 by simp
    have 3: "dirs w' = dirs w" using di d3 by simp
    have 4: "\<forall>q. files w q \<noteq> None \<longrightarrow> files w' q \<noteq> None"
      using mono by (simp add: f3)
    have 5: "\<forall>q. q \<notin> (\<lambda>d. locate (output_file L d)) ` set ((l0 # dn) @ [l]) \<longrightarrow>
               files w' q = files w q"
      using frame by (simp add: f3)
    have 6: "\<forall>d\<in>set (l0 # dn). files w' (locate (output_file L d)) \<noteq> None \<and>
        (locate (output_file L d) \<noteq> locate (output_file L l) \<longrightarrow>
           (\<exists>d'\<in>set (l0 # dn). \<exists>w''. locate (output_file L d') = locate (output_file L d) \<and>
               files w' (locate (output_file L d)) = Some (fst (render_page L d' w''))))"
    proof
      fix d assume d: "d \<in> set (l0 # dn)"
      show "files w' (locate (output_file L d)) \<noteq> None \<and>
        (locate (output_file L d) \<noteq> locate (output_file L l) \<longrightarrow>
           (\<exists>d'\<in>set (l0 # dn). \<exists>w''. locate (output_file L d') = locate (output_file L d) \<and>
               files w' (locate (output_file L d)) = Some (fst (render_page L d' w''))))"
      proof (cases "d \<in> set dn")
        case True
        with pages show ?thesis by auto
      next
        case False
        with d have dl: "d = l0" by simp
        have ex: "files w' ?f0 \<noteq> None"
          using mono by (simp add: f3)
        have "\<exists>d'\<in>set (l0 # dn). \<exists>w''. locate (output_file L d') = ?f0 \<and>
               files w' ?f0 = Some (fst (render_page L d' w''))"
          if ne: "?f0 \<noteq> locate (output_file L l)"
        proof (cases "?f0 \<in> (\<lambda>d. locate (output_file L d)) ` set dn")
          case True
          then obtain d1 where d1: "d1 \<in> set dn" "locate (output_file L d1) = ?f0" by auto
          with pages ne obtain d' w'' where "d' \<in> set dn"
            "locate (output_file L d') = locate (output_file L d1)"
            "files w' (locate (output_file L d1)) = Some (fst (render_page L d' w''))"
            by metis
          then show ?thesis using d1(2) by auto
        next
          case False
          with ne have "?f0 \<notin> (\<lambda>d. locate (output_file L d)) ` set (dn @ [l])" by auto
          with frame have "files w' ?f0 = files ?w3 ?f0" by blast
          then have "files w' ?f0 = Some (fst (render_page L l0 w))"
            by (simp add: f3)
          then show ?thesis by auto
        qed
        with ex dl show ?thesis by blast
      qed
    qed
    from 1 e 2 3 4 5 6 show ?thesis by blast
  qed
qed

subsection \<open>A run with fresh leads\<close>

lemma main_nonempty:
  assumes "load_leads L (CSV_PATH L) w = Inr leads"
    and "load_generated L (GENERATED_PATH L) w = Inr entries"
    and "generated_slugs entries = Inr slugs"
    and "batch (fresh_leads slugs leads) \<noteq> []"
  shows "main L w =
     (case mkdir (OUTPUT_DIR L) w of
        (Inl e, w1) \<Rightarrow> (Inl e, w1)
      | (Inr x, w1) \<Rightarrow>
         (case batch_loop L (strftime TIMESTAMP_FORMAT (clock w1 (tick w1)))
                 (batch (fresh_leads slugs leads)) entries (w1\<lparr>tick := Suc (tick w1)\<rparr>) of
            (Inl e, w3) \<Rightarrow> (Inl e, w3)
          | (Inr es, w3) \<Rightarrow>
             (case save_generated L (GENERATED_PATH L) es w3 of
                (Inl e, w4) \<Rightarrow> (Inl e, w4)
              | (Inr y, w4) \<Rightarrow>
                  (Inr (), print (u ''Saved log to '' @
                     path_str \<lparr>root = [], names = [u ''data'', u ''generated.json'']\<rparr>) w4))))"
  using assms by (simp add: main_def utcnow_def ledger_shown split: prod.splits sum.splits)





subsection \<open>A run that fails on writing a page\<close>

lemma save_generated_Inl:
  "save_generated L p es w = (Inl e, w') \<Longrightarrow> e = OSError (parent p) \<or> e = OSError p"
  by (auto simp: save_generated_def mkdir_def write_text_def split: option.splits damage.splits)

lemma html_not_empty: "html L today lead \<noteq> []"
  unfolding html_def by (simp add: u_def)

lemma example_pages:
  "output_file (example_stdlib rows docs) (example_lead (u ''a'')) = Path (u ''/srv/app/pages/a.html'')"
  "output_file (example_stdlib rows docs) (example_lead (u ''./a'')) = Path (u ''/srv/app/pages/a.html'')"
  "output_file (example_stdlib rows docs) (example_lead (u ''b'')) = Path (u ''/srv/app/pages/b.html'')"
  "output_file (example_stdlib rows docs) (example_lead (u ''c'')) = Path (u ''/srv/app/pages/c.html'')"
  "locate (Path (u ''/srv/app/pages/a.html'')) = page_file (u ''a.html'')"
  "relative_to (Path (u ''/srv/app/pages/a.html'')) (ROOT (example_stdlib rows docs)) =
     Inr \<lparr>root = [], names = [u ''pages'', u ''a.html'']\<rparr>"
  "Path (u ''/srv/app/pages/a.html'') \<noteq> Path (u ''/srv/app/pages/b.html'')"
  "Path (u ''/srv/app/pages/c.html'') \<noteq> Path (u ''/srv/app/pages/b.html'')"
  by (simp_all add: output_file_def OUTPUT_DIR_def ROOT_def joinpath_def Path_def
      parse_root_def str_split_def locate_def page_file_def relative_to_def example_stdlib_def
      example_lead_def u_def)

text \<open>
  Claim C4 (as amended). Take a run of \<open>main\<close> that fails with the error of the
  \<open>write_text\<close> of a page. Then the batch splits into the pages before the failing one
  (\<open>done\<close>), the failing page and the rest; the ledger file is what it was before the
  run; the \<open>write_text\<close> calls the run completed are exactly those of the pages of
  \<open>done\<close>, in order, so the ledger was not written; and every page of \<open>done\<close> has its
  file on disk. That file holds a rendering of a lead of \<open>done\<close> with the same file,
  unless the failing page has that same file: the failed write then decides what the
  file holds. When the pages of \<open>done\<close> and the failing page are pairwise different
  files, the file of every page of \<open>done\<close> holds a rendering of that very lead.
\<close>

theorem main_page_write_failure:
  assumes "load_leads L (CSV_PATH L) w = Inr leads"
    and "load_generated L (GENERATED_PATH L) w = Inr entries"
    and "generated_slugs entries = Inr slugs"
    and "main L w = (Inl (OSError (output_file L l0)), w')"
  shows "\<exists>done l rest.
     batch (fresh_leads slugs leads) = done @ l # rest \<and> output_file L l = output_file L l0 \<and>
     files w' (locate (GENERATED_PATH L)) = files w (locate (GENERATED_PATH L)) \<and>
     writes w' = writes w @ map (output_file L) done \<and>
     (\<forall>d\<in>set done. files w' (locate (output_file L d)) \<noteq> None \<and>
        (locate (output_file L d) \<noteq> locate (output_file L l) \<longrightarrow>
           (\<exists>d'\<in>set done. \<exists>w''. locate (output_file L d') = locate (output_file L d) \<and>
               files w' (locate (output_file L d)) = Some (fst (render_page L d' w''))))) \<and>
     (distinct (map (\<lambda>d. locate (output_file L d)) (done @ [l])) \<longrightarrow>
        (\<forall>d\<in>set done. \<exists>w''. files w' (locate (output_file L d)) = Some (fst (render_page L d w''))))"
proof -
  let ?b = "batch (fresh_leads slugs leads)"
  let ?fid = "\<lambda>d. locate (output_file L d)"
  have ne: "?b \<noteq> []"
  proof
    assume "?b = []"
    then have "fst (main L w) = Inr ()" using assms(1-3) by (simp add: main_def)
    with assms(4) show False by simp
  qed
  note M = main_nonempty[OF assms(1-3) ne]
  obtain r1 w1 where mk: "mkdir (OUTPUT_DIR L) w = (r1, w1)"
    by (cases "mkdir (OUTPUT_DIR L) w")
  have "\<exists>x. r1 = Inr x"
  proof (cases r1)
    case (Inl e)
    with mk have "e = OSError (OUTPUT_DIR L)" by (simp add: mkdir_Inl)
    with M mk Inl assms(4) have "output_file L l0 = OUTPUT_DIR L" by simp
    with output_file_not_others(2) show ?thesis by blast
  qed simp
  then obtain x where r1: "r1 = Inr x" ..
  from mk r1 have w1: "w1 = w\<lparr>dirs := insert (locate (OUTPUT_DIR L)) (dirs w), tick := Suc (tick w)\<rparr>"
    by (simp add: mkdir_Inr_iff)
  let ?ts = "strftime TIMESTAMP_FORMAT (clock w1 (tick w1))"
  let ?w2 = "w1\<lparr>tick := Suc (tick w1)\<rparr>"
  obtain r3 w3 where bl: "batch_loop L ?ts ?b entries ?w2 = (r3, w3)"
    by (cases "batch_loop L ?ts ?b entries ?w2")
  have "\<exists>e. r3 = Inl e"
  proof (cases r3)
    case (Inr es)
    obtain r4 w4 where sv: "save_generated L (GENERATED_PATH L) es w3 = (r4, w4)"
      by (cases "save_generated L (GENERATED_PATH L) es w3")
    show ?thesis
    proof (cases r4)
      case (Inl e)
      with sv have "e = OSError (parent (GENERATED_PATH L)) \<or> e = OSError (GENERATED_PATH L)"
        using save_generated_Inl by blast
      moreover from M mk r1 bl Inr sv Inl assms(4) have "e = OSError (output_file L l0)" by simp
      ultimately show ?thesis
        using output_file_not_others(1,3) by auto
    next
      case (Inr y)
      with M mk r1 bl \<open>r3 = Inr es\<close> sv assms(4) show ?thesis by simp
    qed
  qed simp
  then obtain e where r3: "r3 = Inl e" ..
  from M mk r1 bl r3 assms(4) have e: "e = OSError (output_file L l0)" and w': "w' = w3"
    by simp_all
  from batch_loop_Inl[OF bl[unfolded r3 e]] obtain dn l rest where
    b: "?b = dn @ l # rest" and el: "output_file L l0 = output_file L l"
    and wr: "writes w3 = writes ?w2 @ map (output_file L) dn"
    and frame: "\<forall>q. q \<notin> ?fid ` set (dn @ [l]) \<longrightarrow> files w3 q = files ?w2 q"
    and pages: "\<forall>d\<in>set dn. files w3 (?fid d) \<noteq> None \<and>
        (?fid d \<noteq> ?fid l \<longrightarrow>
           (\<exists>d'\<in>set dn. \<exists>w''. ?fid d' = ?fid d \<and>
               files w3 (?fid d) = Some (fst (render_page L d' w''))))"
    by blast
  have "locate (GENERATED_PATH L) \<notin> ?fid ` set (dn @ [l])"
    using output_file_not_ledger by (metis imageE)
  with frame have led: "files w' (locate (GENERATED_PATH L)) = files w (locate (GENERATED_PATH L))"
    by (simp add: w' w1)
  have wr': "writes w' = writes w @ map (output_file L) dn"
    using wr by (simp add: w' w1)
  have pg: "\<forall>d\<in>set dn. files w' (?fid d) \<noteq> None \<and>
        (?fid d \<noteq> ?fid l \<longrightarrow>
           (\<exists>d'\<in>set dn. \<exists>w''. ?fid d' = ?fid d \<and>
               files w' (?fid d) = Some (fst (render_page L d' w''))))"
    using pages unfolding w' by blast
  have ds: "distinct (map ?fid (dn @ [l])) \<longrightarrow>
        (\<forall>d\<in>set dn. \<exists>w''. files w' (?fid d) = Some (fst (render_page L d w'')))"
  proof (intro impI ballI)
    fix d
    assume dist: "distinct (map ?fid (dn @ [l]))" and d: "d \<in> set dn"
    from dist have inj: "inj_on ?fid (set (dn @ [l]))" by (simp only: distinct_map)
    from dist have "?fid l \<notin> ?fid ` set dn" by simp
    with d have "?fid d \<noteq> ?fid l" by (metis imageI)
    with pg d obtain d' w'' where d': "d' \<in> set dn" "?fid d' = ?fid d"
      and f: "files w' (?fid d) = Some (fst (render_page L d' w''))" by blast
    from inj d d' have "d' = d" by (auto dest: inj_onD)
    with f show "\<exists>w''. files w' (?fid d) = Some (fst (render_page L d w''))" by blast
  qed
  from b el[symmetric] led wr' pg ds show ?thesis by blast
qed

theorem main_page_write_failure_witness:
  "fst (main (example_stdlib [example_row (u ''a''), example_row (u ''b''), example_row (u ''c'')]
                [u ''ledger'' \<mapsto> JArr [JObj [(u ''slug'', JStr (u ''z''))]]])
             (example_world [csv_file \<mapsto> u ''csv'', ledger_file \<mapsto> u ''ledger'']
                (fault_at 5 (Partial []))))
     = Inl (OSError (Path (u ''/srv/app/pages/b.html'')))
   \<and> files (snd (main (example_stdlib [example_row (u ''a''), example_row (u ''b''), example_row (u ''c'')]
                [u ''ledger'' \<mapsto> JArr [JObj [(u ''slug'', JStr (u ''z''))]]])
             (example_world [csv_file \<mapsto> u ''csv'', ledger_file \<mapsto> u ''ledger'']
                (fault_at 5 (Partial []))))) ledger_file
     = Some (u ''ledger'')
   \<and> writes (snd (main (example_stdlib [example_row (u ''a''), example_row (u ''b''), example_row (u ''c'')]
                [u ''ledger'' \<mapsto> JArr [JObj [(u ''slug'', JStr (u ''z''))]]])
             (example_world [csv_file \<mapsto> u ''csv'', ledger_file \<mapsto> u ''ledger'']
                (fault_at 5 (Partial [])))))
     = [Path (u ''/srv/app/pages/a.html'')]
   \<and> files (snd (main (example_stdlib [example_row (u ''a''), example_row (u ''b''), example_row (u ''c'')]
                [u ''ledger'' \<mapsto> JArr [JObj [(u ''slug'', JStr (u ''z''))]]])
             (example_world [csv_file \<mapsto> u ''csv'', ledger_file \<mapsto> u ''ledger'']
                (fault_at 5 (Partial []))))) (page_file (u ''a.html''))
     \<noteq> None"
proof -
  let ?L = "example_stdlib [example_row (u ''a''), example_row (u ''b''), example_row (u ''c'')]
                [u ''ledger'' \<mapsto> JArr [JObj [(u ''slug'', JStr (u ''z''))]]]"
  let ?w = "example_world [csv_file \<mapsto> u ''csv'', ledger_file \<mapsto> u ''ledger'']
                (fault_at 5 (Partial []))"
  let ?la = "example_lead (u ''a'')" and ?lb = "example_lead (u ''b'')" and ?lc = "example_lead (u ''c'')"
  let ?e = "\<lparr>GeneratedEntry.slug = JStr (u ''z''), created_at = JStr [],
              source = JStr (u ''data/leads.csv'')\<rparr>"
  have st: "strip (u ''a'') = u ''a''" "strip (u ''b'') = u ''b''" "strip (u ''c'') = u ''c''"
    by (simp_all add: strip_def isspace_def u_def)
  have "from_row (example_row (u ''a'')) = Inr (example_lead (strip (u ''a'')))"
    "from_row (example_row (u ''b'')) = Inr (example_lead (strip (u ''b'')))"
    "from_row (example_row (u ''c'')) = Inr (example_lead (strip (u ''c'')))"
    by (rule from_row_example, simp add: u_def)+
  then have 1: "load_leads ?L (CSV_PATH ?L) ?w = Inr [?la, ?lb, ?lc]"
    unfolding load_leads_def example_files st
    by (simp add: example_world_def example_stdlib_def)
  have 2: "load_generated ?L (GENERATED_PATH ?L) ?w = Inr [?e]"
    unfolding load_generated_def example_files
    by (simp add: example_world_def example_files(3,4) example_stdlib_def entries_of_def
        iterate_def dict_get_def u_def)
  have 3: "generated_slugs [?e] = Inr {JStr (u ''z'')}"
    by (simp add: generated_slugs_def hashable_def)
  have b: "batch (fresh_leads {JStr (u ''z'')} [?la, ?lb, ?lc]) = [?la, ?lb, ?lc]"
    by (simp add: batch_def fresh_leads_def BATCH_SIZE_def example_lead_def u_def)
  then have 4: "batch (fresh_leads {JStr (u ''z'')} [?la, ?lb, ?lc]) \<noteq> []" by simp
  have f: "fst (main ?L ?w) = Inl (OSError (output_file ?L ?lb))"
    unfolding main_nonempty[OF 1 2 3 4] b
    by (simp add: batch_loop_Cons mkdir_def write_text_def print_def case_prod_unfold
        example_world_def fault_at_def example_pages)
  then have m: "main ?L ?w = (Inl (OSError (output_file ?L ?lb)), snd (main ?L ?w))"
    by (simp add: prod_eq_iff)
  from main_page_write_failure[OF 1 2 3 m] obtain dn l rest where
    d: "batch (fresh_leads {JStr (u ''z'')} [?la, ?lb, ?lc]) = dn @ l # rest"
    and sl: "output_file ?L l = output_file ?L ?lb"
    and led: "files (snd (main ?L ?w)) (locate (GENERATED_PATH ?L)) = files ?w (locate (GENERATED_PATH ?L))"
    and wr: "writes (snd (main ?L ?w)) = writes ?w @ map (output_file ?L) dn"
    and pg: "\<forall>d\<in>set dn. files (snd (main ?L ?w)) (locate (output_file ?L d)) \<noteq> None"
    by blast
  from d have "(dn = [] \<and> l = ?la) \<or> (dn = [?la] \<and> l = ?lb) \<or> (dn = [?la, ?lb] \<and> l = ?lc)"
    unfolding b by (auto simp: append_eq_Cons_conv Cons_eq_append_conv)
  with sl have dn: "dn = [?la]"
    by (auto simp: example_pages)
  have "files ?w ledger_file = Some (u ''ledger'')" "writes ?w = []"
    by (simp_all add: example_world_def)
  with f led wr pg show ?thesis
    unfolding dn example_files by (simp add: example_pages)
qed

text \<open>
  The claim as first stated promises that the pages written before the failing one
  remain written. Two leads of one batch can name the same file: the slugs \<open>a\<close> and
  \<open>./a\<close> are different strings, so both leads are fresh, and \<open>pathlib\<close> drops the
  \<open>.\<close> component, so both pages are \<open>pages/a.html\<close>. When the write of the second
  page fails after the file was opened for writing, the run stops with that error,
  the first page was written in full, and its file is left empty: it no longer
  holds a page, each of which starts with the document type.
\<close>

theorem main_page_write_failure_counterexample:
  "fst (main (example_stdlib [example_row (u ''a''), example_row (u ''./a'')] Map.empty)
             (example_world [csv_file \<mapsto> u ''csv''] (fault_at 5 (Partial []))))
     = Inl (OSError (Path (u ''/srv/app/pages/a.html'')))
   \<and> output_file (example_stdlib [example_row (u ''a''), example_row (u ''./a'')] Map.empty)
        (example_lead (u ''a'')) = Path (u ''/srv/app/pages/a.html'')
   \<and> output_file (example_stdlib [example_row (u ''a''), example_row (u ''./a'')] Map.empty)
        (example_lead (u ''./a'')) = Path (u ''/srv/app/pages/a.html'')
   \<and> locate (Path (u ''/srv/app/pages/a.html'')) = page_file (u ''a.html'')
   \<and> writes (snd (main (example_stdlib [example_row (u ''a''), example_row (u ''./a'')] Map.empty)
             (example_world [csv_file \<mapsto> u ''csv''] (fault_at 5 (Partial [])))))
     = [Path (u ''/srv/app/pages/a.html'')]
   \<and> files (snd (main (example_stdlib [example_row (u ''a''), example_row (u ''./a'')] Map.empty)
             (example_world [csv_file \<mapsto> u ''csv''] (fault_at 5 (Partial [])))))
        (page_file (u ''a.html''))
     = Some []
   \<and> (\<forall>w''. fst (render_page (example_stdlib [example_row (u ''a''), example_row (u ''./a'')] Map.empty)
                  (example_lead (u ''a'')) w'') \<noteq> [])"
proof -
  let ?L = "example_stdlib [example_row (u ''a''), example_row (u ''./a'')] Map.empty"
  let ?w = "example_world [csv_file \<mapsto> u ''csv''] (fault_at 5 (Partial []))"
  let ?la = "example_lead (u ''a'')" and ?lb = "example_lead (u ''./a'')"
  have st: "strip (u ''a'') = u ''a''" "strip (u ''./a'') = u ''./a''"
    by (simp_all add: strip_def isspace_def u_def)
  have "from_row (example_row (u ''a'')) = Inr (example_lead (strip (u ''a'')))"
    "from_row (example_row (u ''./a'')) = Inr (example_lead (strip (u ''./a'')))"
    by (rule from_row_example, simp add: u_def)+
  then have 1: "load_leads ?L (CSV_PATH ?L) ?w = Inr [?la, ?lb]"
    unfolding load_leads_def example_files st
    by (simp add: example_world_def example_stdlib_def)
  have 2: "load_generated ?L (GENERATED_PATH ?L) ?w = Inr []"
    unfolding load_generated_def example_files
    by (simp add: example_world_def example_files(3,4))
  have 3: "generated_slugs [] = Inr {}"
    by (simp add: generated_slugs_def)
  have b: "batch (fresh_leads {} [?la, ?lb]) = [?la, ?lb]"
    by (simp add: batch_def fresh_leads_def BATCH_SIZE_def)
  then have 4: "batch (fresh_leads {} [?la, ?lb]) \<noteq> []" by simp
  have m: "fst (main ?L ?w) = Inl (OSError (Path (u ''/srv/app/pages/a.html'')))"
    "writes (snd (main ?L ?w)) = [Path (u ''/srv/app/pages/a.html'')]"
    "files (snd (main ?L ?w)) (page_file (u ''a.html'')) = Some []"
    unfolding main_nonempty[OF 1 2 3 4] b
    by (simp_all add: batch_loop_Cons mkdir_def write_text_def print_def case_prod_unfold
        example_world_def fault_at_def example_pages)
  have r: "\<forall>w''. fst (render_page ?L ?la w'') \<noteq> []"
    by (simp add: render_page_html html_not_empty)
  from m r show ?thesis
    by (simp add: example_pages)
qed

subsection \<open>The rendered page\<close>

lemma sublist_skip: "sublist xs ys \<Longrightarrow> sublist xs (zs @ ys)"
  by (metis sublist_append_leftI sublist_order.order.trans)

lemma sublist_at: "prefix xs ys \<Longrightarrow> sublist xs (zs @ ys)"
  by (simp add: sublist_skip)

lemmas sublist_search = sublist_at sublist_skip prefix_imp_sublist

lemma suffix_skip: "suffix xs ys \<Longrightarrow> suffix xs (zs @ ys)"
  by (rule suffix_appendI)

lemma date_format: "strftime (u ''%d.%m.%Y'') dt =
    two_digits (day dt) @ [46] @ two_digits (month dt) @ [46] @ decimal (year dt)"
  by (simp add: u_def directive_def)

text \<open>The document: its head, and its body made of the four sections in order.\<close>

lemma html_head:
  \<open>prefix (u ''<!DOCTYPE html>\<newline>'' @ u ''<html lang="de">\<newline>'' @ u ''<head>\<newline>'')
     (html L today lead)\<close>
  unfolding html_def by simp

lemma html_title:
  \<open>sublist (u ''  <title>'' @ business_name lead @ u '' '' @ ndash @ u '' '' @ service lead @
     u '' in '' @ city lead @ u ''</title>\<newline>'') (html L today lead)\<close>
  unfolding html_def by (simp add: sublist_search)

lemma html_body:
  \<open>suffix (u ''<body>\<newline>'' @
     u ''  '' @ hero lead @ u ''\<newline>'' @
     u ''  '' @ pain_section lead @ u ''\<newline>'' @
     u ''  '' @ faq_section L lead @ u ''\<newline>'' @
     u ''  '' @ footer today lead @ u ''\<newline>'' @
     u ''</body>\<newline>'' @
     u ''</html>\<newline>'') (html L today lead)\<close>
  unfolding html_def by (simp add: suffix_skip)

text \<open>The hero section.\<close>

lemma hero_heading:
  \<open>sublist (u ''  <h1>'' @ business_name lead @ u '' '' @ ndash @ u '' '' @ service lead @
     u '' in '' @ city lead @ u ''</h1>\<newline>'') (hero lead)\<close>
  unfolding hero_def by (simp add: sublist_search)

lemma hero_tagline:
  \<open>sublist (u ''  <p class="tagline">'' @ service lead @ u '' in '' @ city lead @ u '': '' @
     offer lead @ u ''</p>\<newline>'') (hero lead)\<close>
  unfolding hero_def tagline_def by (simp add: sublist_search)

lemma hero_cta:
  \<open>sublist (u ''  <a class="cta" href="mailto:hello@example.com?subject='' @
     business_name lead @ u ''%20Landingpage">Jetzt Beratung sichern</a>\<newline>'') (hero lead)\<close>
  unfolding hero_def by (simp add: sublist_search)

text \<open>The pain-point section.\<close>

lemma pain_headline:
  \<open>sublist (u ''  <h2>Wir l'' @ ouml @ u ''sen: '' @ pain_point lead @ u ''</h2>\<newline>'')
     (pain_section lead)\<close>
  unfolding pain_section_def by (simp add: sublist_search)

lemma pain_bullets:
  \<open>sublist (u ''  <ul>\<newline>'' @
     u ''    <li>Storytelling rund um '' @ business_name lead @ u ''</li>\<newline>'' @
     u ''    <li>Lokale Beweise aus '' @ city lead @ u ''</li>\<newline>'' @
     u ''    <li>Schlanke Kontaktwege f'' @ uuml @ u ''r mehr Abschl'' @ uuml @
     u ''sse</li>\<newline>'' @
     u ''  </ul>\<newline>'') (pain_section lead)\<close>
  unfolding pain_section_def by (simp add: sublist_search)

text \<open>The FAQ section.\<close>

lemma faqs_length: "length (faqs L lead) = 3"
  by (simp add: faqs_def)

lemma render_faq_items:
  \<open>render_faq L lead =
     faq_item (faqs L lead ! 0) @ u ''\<newline>'' @
     faq_item (faqs L lead ! 1) @ u ''\<newline>'' @
     faq_item (faqs L lead ! 2)\<close>
  by (simp add: render_faq_def faqs_def)

lemma faq_section_items: "sublist (render_faq L lead) (faq_section L lead)"
  unfolding faq_section_def by (simp add: sublist_search)

lemma faq_item_parts:
  \<open>faq_item (question, answer) =
     u ''<div class="faq-item">\<newline>'' @
     u ''  <h3>'' @ question @ u ''</h3>\<newline>'' @
     u ''  <p>'' @ answer @ u ''</p>\<newline>'' @
     u ''</div>''\<close>
  by (simp add: faq_item_def)

lemma faqs_fields:
  "sublist (business_name lead) (fst (faqs L lead ! 0))"
  "sublist (lower L (service lead)) (fst (faqs L lead ! 0))"
  "sublist (city lead) (fst (faqs L lead ! 0))"
  "sublist (business_name lead) (snd (faqs L lead ! 0))"
  "sublist (offer lead) (fst (faqs L lead ! 1))"
  "sublist (offer lead) (snd (faqs L lead ! 1))"
  "sublist (business_name lead) (snd (faqs L lead ! 1))"
  by (simp_all add: faqs_def sublist_search)

text \<open>The footer.\<close>

lemma footer_date:
  \<open>sublist (u '' erstellt am '' @ today @ u ''.</p>\<newline>'') (footer today lead)\<close>
  unfolding footer_def by (simp add: sublist_search)

lemma footer_cta:
  \<open>sublist (u ''  <a class="cta secondary" href="mailto:hello@example.com?subject='' @
     business_name lead @ u ''%20Projekt">Kostenloses Gespr'' @ auml @
     u ''ch anfragen</a>\<newline>'') (footer today lead)\<close>
  unfolding footer_def by (simp add: sublist_search)

text \<open>Every field the templates interpolate stands in the page as it is.\<close>

lemma html_sections:
  "sublist (hero lead) (html L today lead)"
  "sublist (pain_section lead) (html L today lead)"
  "sublist (faq_section L lead) (html L today lead)"
  "sublist (footer today lead) (html L today lead)"
  unfolding html_def by (simp_all add: sublist_search)

lemma pain_point_in_section: "sublist (pain_point lead) (pain_section lead)"
  unfolding pain_section_def by (simp add: sublist_search)

lemma offer_in_hero: "sublist (offer lead) (hero lead)"
  unfolding hero_def tagline_def by (simp add: sublist_search)

lemma html_fields:
  "sublist (business_name lead) (html L today lead)"
  "sublist (service lead) (html L today lead)"
  "sublist (city lead) (html L today lead)"
  "sublist (offer lead) (html L today lead)"
  "sublist (pain_point lead) (html L today lead)"
proof -
  show "sublist (business_name lead) (html L today lead)"
    "sublist (service lead) (html L today lead)"
    "sublist (city lead) (html L today lead)"
    unfolding html_def by (simp_all add: sublist_search)
  show "sublist (offer lead) (html L today lead)"
    using offer_in_hero html_sections(1) by (rule sublist_order.order.trans)
  show "sublist (pain_point lead) (html L today lead)"
    using pain_point_in_section html_sections(2) by (rule sublist_order.order.trans)
qed

text \<open>The page is a fixed text around the date.\<close>

lemma hole_here: "\<exists>a b. \<forall>t. g t @ y = a @ g t @ b"
  by (intro exI[of _ "[]"] exI[of _ y]) simp

lemma hole_skip: "\<exists>a b. \<forall>t. f t = a @ g t @ b \<Longrightarrow> \<exists>a b. \<forall>t. x @ f t = a @ g t @ b"
proof -
  assume "\<exists>a b. \<forall>t. f t = a @ g t @ b"
  then obtain a b where "\<forall>t. f t = a @ g t @ b" by blast
  then have "\<forall>t. x @ f t = (x @ a) @ g t @ b" by simp
  then show ?thesis by blast
qed

lemma footer_around_date: "\<exists>a b. \<forall>today. footer today lead = a @ today @ b"
  unfolding footer_def by (rule hole_here | rule hole_skip)+

lemma html_around_footer: "\<exists>a b. \<forall>today. html L today lead = a @ footer today lead @ b"
  unfolding html_def by (rule hole_here | rule hole_skip)+

lemma html_around_date: "\<exists>a b. \<forall>today. html L today lead = a @ today @ b"
proof -
  obtain a b where 1: "\<forall>today. footer today lead = a @ today @ b"
    using footer_around_date by blast
  obtain c d where 2: "\<forall>today. html L today lead = c @ footer today lead @ d"
    using html_around_footer by blast
  have "\<forall>today. html L today lead = (c @ a) @ today @ (b @ d)"
    using 1 2 by simp
  then show ?thesis by blast
qed


text \<open>
  Claim C8. \<open>render_page\<close> returns the template \<open>html\<close> filled with the lead and with
  the current UTC date formatted as day.month.year. For every lead and date, that text
  is a complete document: it starts with the doctype and the head, which holds the
  title, and it ends with the body, made of the hero section, the pain-point section,
  the FAQ section and the footer, in this order. The hero section holds the heading
  (business name, service, city), the tagline (service, city, offer) and the mail link
  whose subject starts with the business name. The pain-point section holds the
  headline with the pain point and the list of three benefits, with the business name
  and the city. The FAQ section holds the three rendered question/answer pairs, built
  from the business name, the lower-cased service, the city and the offer. The footer
  holds the date and the second mail link. Every interpolated field (business name,
  service, city, offer, pain point) stands in the page character for character.
\<close>

theorem render_page_document:
  \<open>fst (render_page L lead w) = html L (strftime (u ''%d.%m.%Y'') (clock w (tick w))) lead
   \<and> (\<forall>today.
        prefix (u ''<!DOCTYPE html>\<newline>'' @ u ''<html lang="de">\<newline>'' @ u ''<head>\<newline>'')
          (html L today lead)
      \<and> sublist (u ''  <title>'' @ business_name lead @ u '' '' @ ndash @ u '' '' @
            service lead @ u '' in '' @ city lead @ u ''</title>\<newline>'') (html L today lead)
      \<and> suffix (u ''<body>\<newline>'' @
            u ''  '' @ hero lead @ u ''\<newline>'' @
            u ''  '' @ pain_section lead @ u ''\<newline>'' @
            u ''  '' @ faq_section L lead @ u ''\<newline>'' @
            u ''  '' @ footer today lead @ u ''\<newline>'' @
            u ''</body>\<newline>'' @
            u ''</html>\<newline>'') (html L today lead)
      \<and> sublist (hero lead) (html L today lead)
      \<and> sublist (pain_section lead) (html L today lead)
      \<and> sublist (faq_section L lead) (html L today lead)
      \<and> sublist (footer today lead) (html L today lead)
      \<and> sublist (u '' erstellt am '' @ today @ u ''.</p>\<newline>'') (footer today lead)
      \<and> sublist (u ''  <a class="cta secondary" href="mailto:hello@example.com?subject='' @
            business_name lead @ u ''%20Projekt">Kostenloses Gespr'' @ auml @
            u ''ch anfragen</a>\<newline>'') (footer today lead)
      \<and> sublist (business_name lead) (html L today lead)
      \<and> sublist (service lead) (html L today lead)
      \<and> sublist (city lead) (html L today lead)
      \<and> sublist (offer lead) (html L today lead)
      \<and> sublist (pain_point lead) (html L today lead))
   \<and> sublist (u ''  <h1>'' @ business_name lead @ u '' '' @ ndash @ u '' '' @ service lead @
         u '' in '' @ city lead @ u ''</h1>\<newline>'') (hero lead)
   \<and> sublist (u ''  <p class="tagline">'' @ service lead @ u '' in '' @ city lead @ u '': '' @
         offer lead @ u ''</p>\<newline>'') (hero lead)
   \<and> sublist (u ''  <a class="cta" href="mailto:hello@example.com?subject='' @
         business_name lead @ u ''%20Landingpage">Jetzt Beratung sichern</a>\<newline>'') (hero lead)
   \<and> sublist (u ''  <h2>Wir l'' @ ouml @ u ''sen: '' @ pain_point lead @ u ''</h2>\<newline>'')
         (pain_section lead)
   \<and> sublist (u ''  <ul>\<newline>'' @
         u ''    <li>Storytelling rund um '' @ business_name lead @ u ''</li>\<newline>'' @
         u ''    <li>Lokale Beweise aus '' @ city lead @ u ''</li>\<newline>'' @
         u ''    <li>Schlanke Kontaktwege f'' @ uuml @ u ''r mehr Abschl'' @ uuml @
         u ''sse</li>\<newline>'' @
         u ''  </ul>\<newline>'') (pain_section lead)
   \<and> length (faqs L lead) = 3
   \<and> sublist (render_faq L lead) (faq_section L lead)
   \<and> render_faq L lead =
         faq_item (faqs L lead ! 0) @ u ''\<newline>'' @
         faq_item (faqs L lead ! 1) @ u ''\<newline>'' @
         faq_item (faqs L lead ! 2)
   \<and> (\<forall>question answer.
         faq_item (question, answer) =
           u ''<div class="faq-item">\<newline>'' @
           u ''  <h3>'' @ question @ u ''</h3>\<newline>'' @
           u ''  <p>'' @ answer @ u ''</p>\<newline>'' @
           u ''</div>'')
   \<and> sublist (business_name lead) (fst (faqs L lead ! 0))
   \<and> sublist (lower L (service lead)) (fst (faqs L lead ! 0))
   \<and> sublist (city lead) (fst (faqs L lead ! 0))
   \<and> sublist (business_name lead) (snd (faqs L lead ! 0))
   \<and> sublist (offer lead) (fst (faqs L lead ! 1))
   \<and> sublist (offer lead) (snd (faqs L lead ! 1))
   \<and> sublist (business_name lead) (snd (faqs L lead ! 1))\<close>
  by (intro conjI allI render_page_html html_head html_title html_body html_sections
      footer_date footer_cta html_fields hero_heading hero_tagline hero_cta pain_headline
      pain_bullets faqs_length faq_section_items render_faq_items faq_item_parts faqs_fields)


theorem render_page_document_witness:
  \<open>sublist (u ''Acme Plumbing'')
     (fst (render_page (example_stdlib [] Map.empty) (example_lead (u ''acme-plumbing''))
        (example_world Map.empty no_fault)))
   \<and> sublist (u ''Berlin'')
     (fst (render_page (example_stdlib [] Map.empty) (example_lead (u ''acme-plumbing''))
        (example_world Map.empty no_fault)))
   \<and> sublist (u '' erstellt am 17.05.2024.</p>\<newline>'')
     (fst (render_page (example_stdlib [] Map.empty) (example_lead (u ''acme-plumbing''))
        (example_world Map.empty no_fault)))
   \<and> sublist (u ''<b>"A&B"</b>'')
     (fst (render_page (example_stdlib [] Map.empty)
        ((example_lead (u ''x''))\<lparr>business_name := u ''<b>"A&B"</b>''\<rparr>)
        (example_world Map.empty no_fault)))\<close>
proof -
  let ?L = "example_stdlib [] Map.empty"
  let ?w = "example_world Map.empty no_fault"
  let ?l = "example_lead (u ''acme-plumbing'')"
  let ?x = \<open>(example_lead (u ''x''))\<lparr>business_name := u ''<b>"A&B"</b>''\<rparr>\<close>
  let ?today = "strftime (u ''%d.%m.%Y'') (clock ?w (tick ?w))"
  have today: "?today = u ''17.05.2024''"
    unfolding date_format
    by (simp add: example_world_def example_clock_def two_digits_def decimal.simps u_def)
  note T = render_page_document[of ?L ?l ?w]
  note X = render_page_document[of ?L ?x ?w]
  from T have page: "fst (render_page ?L ?l ?w) = html ?L ?today ?l" by (rule conjunct1)
  from T have all: "sublist (footer ?today ?l) (html ?L ?today ?l)"
    "sublist (u '' erstellt am '' @ ?today @ u ''.</p>\<newline>'') (footer ?today ?l)"
    "sublist (business_name ?l) (html ?L ?today ?l)"
    "sublist (city ?l) (html ?L ?today ?l)"
    by blast+
  from all(2,1) have "sublist (u '' erstellt am '' @ ?today @ u ''.</p>\<newline>'') (html ?L ?today ?l)"
    by (rule sublist_order.order.trans)
  moreover have "u '' erstellt am '' @ u ''17.05.2024'' @ u ''.</p>\<newline>''
      = u '' erstellt am 17.05.2024.</p>\<newline>''"
    by (simp add: u_def)
  ultimately have 3: "sublist (u '' erstellt am 17.05.2024.</p>\<newline>'') (fst (render_page ?L ?l ?w))"
    by (simp add: page today)
  have f: "business_name ?l = u ''Acme Plumbing''" "city ?l = u ''Berlin''"
    by (simp_all add: example_lead_def)
  from all(3) have 1: "sublist (u ''Acme Plumbing'') (fst (render_page ?L ?l ?w))"
    unfolding page f .
  from all(4) have 2: "sublist (u ''Berlin'') (fst (render_page ?L ?l ?w))"
    unfolding page f .
  from X have "fst (render_page ?L ?x ?w) = html ?L ?today ?x"
    and "sublist (business_name ?x) (html ?L ?today ?x)"
    by blast+
  then have 4: \<open>sublist (u ''<b>"A&B"</b>'') (fst (render_page ?L ?x ?w))\<close>
    by simp
  from 1 2 3 4 show ?thesis by blast
qed

text \<open>
  Claim C9. The page \<open>render_page\<close> returns for a lead depends on the world only
  through the date of the clock reading: two worlds whose clocks show the same day,
  month and year give the same page for the same lead, whatever the time of day, the
  files or anything else in them; the page is one fixed text around the formatted
  date, so that two pages for the same lead are equal exactly when their dates are.
\<close>

theorem render_page_deterministic:
  "(day (clock w (tick w)) = day (clock w' (tick w')) \<and>
    month (clock w (tick w)) = month (clock w' (tick w')) \<and>
    year (clock w (tick w)) = year (clock w' (tick w'))
      \<longrightarrow> fst (render_page L lead w) = fst (render_page L lead w'))
   \<and> (\<exists>a b. \<forall>w0. fst (render_page L lead w0) =
                  a @ strftime (u ''%d.%m.%Y'') (clock w0 (tick w0)) @ b)
   \<and> (fst (render_page L lead w) = fst (render_page L lead w') \<longleftrightarrow>
        strftime (u ''%d.%m.%Y'') (clock w (tick w)) = strftime (u ''%d.%m.%Y'') (clock w' (tick w')))"
proof (intro conjI impI)
  assume "day (clock w (tick w)) = day (clock w' (tick w')) \<and>
    month (clock w (tick w)) = month (clock w' (tick w')) \<and>
    year (clock w (tick w)) = year (clock w' (tick w'))"
  then show "fst (render_page L lead w) = fst (render_page L lead w')"
    by (simp add: render_page_html date_format)
next
  obtain a b where ab: "\<forall>today. html L today lead = a @ today @ b"
    using html_around_date by blast
  then have "\<forall>w0. fst (render_page L lead w0) =
      a @ strftime (u ''%d.%m.%Y'') (clock w0 (tick w0)) @ b"
    by (simp add: render_page_html)
  then show "\<exists>a b. \<forall>w0. fst (render_page L lead w0) =
      a @ strftime (u ''%d.%m.%Y'') (clock w0 (tick w0)) @ b"
    by blast
  from ab show "fst (render_page L lead w) = fst (render_page L lead w') \<longleftrightarrow>
      strftime (u ''%d.%m.%Y'') (clock w (tick w)) = strftime (u ''%d.%m.%Y'') (clock w' (tick w'))"
    by (simp add: render_page_html)
qed

theorem render_page_deterministic_witness:
  "fst (render_page (example_stdlib [] Map.empty) (example_lead (u ''acme-plumbing''))
         (example_world Map.empty no_fault))
   = fst (render_page (example_stdlib [] Map.empty) (example_lead (u ''acme-plumbing''))
         ((example_world [csv_file \<mapsto> u ''csv''] (fault_at 0 Untouched))\<lparr>tick := 7\<rparr>))"
proof -
  let ?w = "example_world Map.empty no_fault"
  let ?w' = "(example_world [csv_file \<mapsto> u ''csv''] (fault_at 0 Untouched))\<lparr>tick := 7\<rparr>"
  have "day (clock ?w (tick ?w)) = day (clock ?w' (tick ?w')) \<and>
    month (clock ?w (tick ?w)) = month (clock ?w' (tick ?w')) \<and>
    year (clock ?w (tick ?w)) = year (clock ?w' (tick ?w'))"
    by (simp add: example_world_def example_clock_def)
  with render_page_deterministic[of ?w ?w' "example_stdlib [] Map.empty"
      "example_lead (u ''acme-plumbing'')"]
  show ?thesis by blast
qed

end
